theory Spec2Isabelle
  imports Main
begin

section \<open>JavaScript values\<close>

text \<open>
  The services receive and return values typed \<open>any\<close>.  They are modelled by the
  following tree of values.  Numbers are integers (status codes, lifetimes in seconds,
  millisecond timestamps); strings are byte strings.  An object is the list of its own
  enumerable properties, in insertion order.

  \<open>JHost ser props\<close> stands for an object whose serialization is not the plain
  property walk: an \<open>Error\<close> (its \<open>message\<close> is not enumerable, so it serializes
  to \<open>{}\<close>), an \<open>AxiosError\<close> (it has a \<open>toJSON\<close> method), a platform request
  object, or an object graph that refers back to itself.  \<open>ser\<close> is what
  \<open>JSON.stringify\<close> produces for it, \<open>None\<close> when \<open>JSON.stringify\<close> throws (as
  it does for a self-referential structure); \<open>props\<close> are the properties that
  property access and the \<open>in\<close> operator see.
\<close>

datatype jsval =
    JUndefined
  | JNull
  | JBool bool
  | JNum int
  | JStr string
  | JArr "jsval list"
  | JObj "(string \<times> jsval) list"
  | JHost "string option" "(string \<times> jsval) list"

text \<open>A settled promise: the value of an \<open>await\<close>, or the value it throws.\<close>

datatype 'a settled = Resolved 'a | Rejected jsval

fun truthy :: "jsval \<Rightarrow> bool" where
  "truthy JUndefined = False"
| "truthy JNull = False"
| "truthy (JBool b) = b"
| "truthy (JNum n) = (n \<noteq> 0)"
| "truthy (JStr s) = (s \<noteq> [])"
| "truthy (JArr xs) = True"
| "truthy (JObj kvs) = True"
| "truthy (JHost ser props) = True"

text \<open>\<open>a || b\<close>\<close>

definition js_or :: "jsval \<Rightarrow> jsval \<Rightarrow> jsval" where
  "js_or a b = (if truthy a then a else b)"

fun is_nullish :: "jsval \<Rightarrow> bool" where
  "is_nullish JUndefined = True"
| "is_nullish JNull = True"
| "is_nullish v = False"

text \<open>
  \<open>v.k\<close> on a value that is neither \<open>null\<close> nor \<open>undefined\<close>.  The property names
  the code reads (\<open>response\<close>, \<open>data\<close>, \<open>message\<close>, \<open>code\<close>, \<open>accessToken\<close>, ...)
  are no properties of a primitive or of an array, where the read gives \<open>undefined\<close>.
\<close>

fun lookup :: "(string \<times> jsval) list \<Rightarrow> string \<Rightarrow> jsval" where
  "lookup [] k = JUndefined"
| "lookup ((k', v) # kvs) k = (if k' = k then v else lookup kvs k)"

fun get_prop :: "jsval \<Rightarrow> string \<Rightarrow> jsval" where
  "get_prop (JObj kvs) k = lookup kvs k"
| "get_prop (JHost ser props) k = lookup props k"
| "get_prop v k = JUndefined"

text \<open>\<open>v?.k\<close>\<close>

definition opt_prop :: "jsval \<Rightarrow> string \<Rightarrow> jsval" where
  "opt_prop v k = (if is_nullish v then JUndefined else get_prop v k)"

text \<open>\<open>typeof v === 'object' && v !== null && k in v\<close>\<close>

fun object_with :: "string \<Rightarrow> jsval \<Rightarrow> bool" where
  "object_with k (JObj kvs) = (k \<in> fst ` set kvs)"
| "object_with k (JHost ser props) = (k \<in> fst ` set props)"
| "object_with k v = False"

text \<open>
  The \<open>TypeError\<close> the runtime throws when a property of \<open>null\<close> or \<open>undefined\<close> is
  read or when a value that is no function is called.  Its \<open>message\<close> is not
  enumerable.
\<close>

definition type_error :: jsval where
  "type_error = JHost (Some ''{}'') [(''message'', JStr ''TypeError'')]"

subsection \<open>Strings\<close>

definition lower_char :: "char \<Rightarrow> char" where
  "lower_char c =
     (let n = (of_char c :: nat) in if 65 \<le> n \<and> n \<le> 90 then char_of (n + 32) else c)"

definition toLowerCase :: "string \<Rightarrow> string" where
  "toLowerCase s = map lower_char s"

fun startsWith :: "string \<Rightarrow> string \<Rightarrow> bool" where
  "startsWith s [] = True"
| "startsWith [] (p # ps) = False"
| "startsWith (c # cs) (p # ps) = (c = p \<and> startsWith cs ps)"

text \<open>\<open>s.includes(p)\<close>\<close>

fun str_includes :: "string \<Rightarrow> string \<Rightarrow> bool" where
  "str_includes [] p = (p = [])"
| "str_includes (c # cs) p = (startsWith (c # cs) p \<or> str_includes cs p)"

fun join :: "string \<Rightarrow> string list \<Rightarrow> string" where
  "join sep [] = []"
| "join sep [x] = x"
| "join sep (x # y # ys) = x @ sep @ join sep (y # ys)"

definition digit_char :: "nat \<Rightarrow> char" where
  "digit_char n = char_of (48 + n)"

fun show_nat :: "nat \<Rightarrow> string" where
  "show_nat n = (if n < 10 then [digit_char n] else show_nat (n div 10) @ [digit_char (n mod 10)])"

definition show_int :: "int \<Rightarrow> string" where
  "show_int i = (if i < 0 then CHR ''-'' # show_nat (nat (- i)) else show_nat (nat i))"

text \<open>
  \<open>String(v)\<close>, as a template literal applies it.  A host object may carry a
  \<open>toString\<close> of its own; the model gives it the default of a plain object.
\<close>

fun js_to_string :: "jsval \<Rightarrow> string" where
  "js_to_string JUndefined = ''undefined''"
| "js_to_string JNull = ''null''"
| "js_to_string (JBool b) = (if b then ''true'' else ''false'')"
| "js_to_string (JNum n) = show_int n"
| "js_to_string (JStr s) = s"
| "js_to_string (JArr xs) =
     join '','' (map (\<lambda>x. if is_nullish x then [] else js_to_string x) xs)"
| "js_to_string (JObj kvs) = ''[object Object]''"
| "js_to_string (JHost ser props) = ''[object Object]''"

subsection \<open>JSON.stringify\<close>

definition hex_char :: "nat \<Rightarrow> char" where
  "hex_char n = (if n < 10 then char_of (48 + n) else char_of (87 + n))"

definition escape_char :: "char \<Rightarrow> string" where
  "escape_char c =
     (let n = (of_char c :: nat) in
      if n = 34 then [CHR 0x5C, CHR 0x22]
      else if n = 92 then [CHR 0x5C, CHR 0x5C]
      else if n = 8 then [CHR 0x5C, CHR ''b'']
      else if n = 12 then [CHR 0x5C, CHR ''f'']
      else if n = 10 then [CHR 0x5C, CHR ''n'']
      else if n = 13 then [CHR 0x5C, CHR ''r'']
      else if n = 9 then [CHR 0x5C, CHR ''t'']
      else if n < 32 then [CHR 0x5C, CHR ''u'', CHR ''0'', CHR ''0'', hex_char (n div 16), hex_char (n mod 16)]
      else [c])"

definition quote :: "string \<Rightarrow> string" where
  "quote s = CHR 0x22 # concat (map escape_char s) @ [CHR 0x22]"

text \<open>
  \<open>serializable v\<close>: \<open>JSON.stringify(v)\<close> does not throw.  \<open>json_text v\<close>: the text
  it produces then.  Inside an array \<open>undefined\<close> is written \<open>null\<close>; a property
  whose value is \<open>undefined\<close> is left out.
\<close>

fun serializable :: "jsval \<Rightarrow> bool" where
  "serializable (JArr xs) = list_all serializable xs"
| "serializable (JObj kvs) = list_all (\<lambda>kv. serializable (snd kv)) kvs"
| "serializable (JHost ser props) = (ser \<noteq> None)"
| "serializable v = True"

fun json_text :: "jsval \<Rightarrow> string" where
  "json_text JUndefined = ''null''"
| "json_text JNull = ''null''"
| "json_text (JBool b) = (if b then ''true'' else ''false'')"
| "json_text (JNum n) = show_int n"
| "json_text (JStr s) = quote s"
| "json_text (JArr xs) = ''['' @ join '','' (map json_text xs) @ '']''"
| "json_text (JObj kvs) =
     ''{'' @ join '','' (map (\<lambda>kv. quote (fst kv) @ '':'' @ json_text (snd kv))
                          (filter (\<lambda>kv. snd kv \<noteq> JUndefined) kvs)) @ ''}''"
| "json_text (JHost ser props) = (case ser of Some s \<Rightarrow> s | None \<Rightarrow> [])"

text \<open>
  \<open>JSON.stringify(v)\<close>: throws (\<open>Inl\<close>), or returns \<open>undefined\<close> (\<open>Inr None\<close>, for
  \<open>undefined\<close> itself), or returns a string.
\<close>

definition JSON_stringify :: "jsval \<Rightarrow> jsval + string option" where
  "JSON_stringify v =
     (if \<not> serializable v then Inl type_error
      else if v = JUndefined then Inr None
      else Inr (Some (json_text v)))"

text \<open>\<open>JSON.stringify(v).toLowerCase()\<close>: calling a method of \<open>undefined\<close> throws.\<close>

definition stringify_lower :: "jsval \<Rightarrow> jsval + string" where
  "stringify_lower v =
     (case JSON_stringify v of
        Inl ex \<Rightarrow> Inl ex
      | Inr None \<Rightarrow> Inl type_error
      | Inr (Some s) \<Rightarrow> Inr (toLowerCase s))"

subsection \<open>Numbers\<close>

definition is_space :: "char \<Rightarrow> bool" where
  "is_space c = ((of_char c :: nat) \<in> {9, 10, 11, 12, 13, 32})"

definition is_digit :: "char \<Rightarrow> bool" where
  "is_digit c = (48 \<le> (of_char c :: nat) \<and> (of_char c :: nat) \<le> 57)"

definition digits_value :: "string \<Rightarrow> nat" where
  "digits_value ds = foldl (\<lambda>acc c. 10 * acc + ((of_char c :: nat) - 48)) 0 ds"

text \<open>
  \<open>parseInt(s, 10)\<close>: leading white space, an optional sign, then the longest run of
  decimal digits; \<open>NaN\<close> (\<open>None\<close>) when there is no digit.
\<close>

definition parseInt :: "string \<Rightarrow> int option" where
  "parseInt s =
     (let t = dropWhile is_space s;
          neg = (t \<noteq> [] \<and> hd t = CHR ''-'');
          u = (if t \<noteq> [] \<and> (hd t = CHR ''-'' \<or> hd t = CHR ''+'') then tl t else t);
          ds = takeWhile is_digit u
      in if ds = [] then None
         else Some (if neg then - int (digits_value ds) else int (digits_value ds)))"

text \<open>
  The expiration timestamp that is stored with a token is the string
  \<open>(Date.now() + expiresIn * 1000).toString()\<close>, computed in double arithmetic from
  the clock and from whatever value \<open>expiresIn\<close> is.  The model takes that string from
  the environment: \<open>expiry v\<close> is what the expression gives for \<open>expiresIn = v\<close> at
  the time of the call.
\<close>

type_synonym expiry = "jsval \<Rightarrow> string"

section \<open>Constants (config/constants.ts)\<close>

definition BIOMETRIC_AUTH :: string where "BIOMETRIC_AUTH = ''/api/v1/auth/biometric/authenticate''"
definition TOKEN_REFRESH :: string where "TOKEN_REFRESH = ''/api/v1/auth/refresh''"
definition LOGIN :: string where "LOGIN = ''/api/v1/auth/login''"
definition FORGOT_PASSWORD :: string where "FORGOT_PASSWORD = ''/api/v1/auth/forgot-password''"
definition VERIFY_EMAIL :: string where "VERIFY_EMAIL = ''/api/v1/auth/verify-email''"
definition REGISTER :: string where "REGISTER = ''/api/v1/auth/register''"
definition RESET_PASSWORD :: string where "RESET_PASSWORD = ''/api/v1/auth/reset-password''"
definition GOOGLE_AUTH :: string where "GOOGLE_AUTH = ''/api/v1/auth/google''"
definition LOGOUT :: string where "LOGOUT = ''/api/v1/auth/logout''"
definition USER_PROFILE :: string where "USER_PROFILE = ''/api/v1/users/profile''"

definition AUTH_TOKEN :: string where "AUTH_TOKEN = ''authToken''"
definition REFRESH_TOKEN :: string where "REFRESH_TOKEN = ''refreshToken''"
definition TOKEN_EXPIRATION :: string where "TOKEN_EXPIRATION = ''tokenExpiration''"
definition SESSION_COOKIE :: string where "SESSION_COOKIE = ''sessionCookie''"

section \<open>Observable auth state (store/authSlice.ts)\<close>

record AuthState =
  isAuthenticated :: bool
  sessionValidated :: bool
  loading :: bool
  error :: "string option"

definition initialState :: AuthState where
  "initialState = \<lparr>isAuthenticated = False, sessionValidated = False, loading = False, error = None\<rparr>"

datatype auth_action =
    LoginStart
  | LoginSuccess
  | LoginFailure "string option"
  | LogoutSuccess
  | SessionValidated

definition loginStart :: "AuthState \<Rightarrow> AuthState" where
  "loginStart state = state\<lparr>loading := True, error := None\<rparr>"

definition loginSuccess :: "AuthState \<Rightarrow> AuthState" where
  "loginSuccess state = state\<lparr>isAuthenticated := True, loading := False, error := None\<rparr>"

definition loginFailure :: "AuthState \<Rightarrow> string option \<Rightarrow> AuthState" where
  "loginFailure state payload = state\<lparr>isAuthenticated := False, loading := False, error := payload\<rparr>"

definition logoutSuccess :: "AuthState \<Rightarrow> AuthState" where
  "logoutSuccess state =
     state\<lparr>isAuthenticated := False, sessionValidated := False, loading := False, error := None\<rparr>"

definition sessionValidated_reducer :: "AuthState \<Rightarrow> AuthState" where
  "sessionValidated_reducer state = state\<lparr>sessionValidated := True\<rparr>"

fun authReducer :: "AuthState \<Rightarrow> auth_action \<Rightarrow> AuthState" where
  "authReducer state LoginStart = loginStart state"
| "authReducer state LoginSuccess = loginSuccess state"
| "authReducer state (LoginFailure payload) = loginFailure state payload"
| "authReducer state LogoutSuccess = logoutSuccess state"
| "authReducer state SessionValidated = sessionValidated_reducer state"

text \<open>The state after dispatching a sequence of actions, oldest first.\<close>

definition dispatch_all :: "AuthState \<Rightarrow> auth_action list \<Rightarrow> AuthState" where
  "dispatch_all state actions = foldl authReducer state actions"

text \<open>
  The repository holds a second, shorter slice of the same name beside the one above,
  which is the one the services and the interceptors import.  Its \<open>loginSuccess\<close> and
  \<open>logoutSuccess\<close> assign the two flags only.
\<close>

definition loginSuccess_short :: "AuthState \<Rightarrow> AuthState" where
  "loginSuccess_short state = state\<lparr>isAuthenticated := True, sessionValidated := True\<rparr>"

definition logoutSuccess_short :: "AuthState \<Rightarrow> AuthState" where
  "logoutSuccess_short state = state\<lparr>isAuthenticated := False, sessionValidated := False\<rparr>"

section \<open>Secure storage (expo-secure-store)\<close>

text \<open>
  The platform store is a map from keys to strings.  \<open>getItemAsync\<close> and
  \<open>deleteItemAsync\<close> always succeed; \<open>setItemAsync\<close> accepts string values only and
  rejects any other value without writing it.
\<close>

type_synonym secure_store = "string \<Rightarrow> string option"

definition store_error :: jsval where
  "store_error = JHost (Some ''{}'') [(''message'', JStr ''Invalid value provided to SecureStore'')]"

definition getItemAsync :: "string \<Rightarrow> secure_store \<Rightarrow> string option" where
  "getItemAsync key store = store key"

definition setItemAsync :: "string \<Rightarrow> jsval \<Rightarrow> secure_store \<Rightarrow> unit settled \<times> secure_store" where
  "setItemAsync key v store =
     (case v of JStr s \<Rightarrow> (Resolved (), store(key \<mapsto> s)) | _ \<Rightarrow> (Rejected store_error, store))"

definition deleteItemAsync :: "string \<Rightarrow> secure_store \<Rightarrow> secure_store" where
  "deleteItemAsync key store = store(key := None)"

section \<open>Token utilities (api/utils/authUtils.ts)\<close>

text \<open>
  The source holds two versions of this module, one after the other.  The first has
  the plain \<open>extractTokenFromResponse\<close> and the \<open>storeAuthTokens\<close> that recognises
  the implicit-session sentinel; the second has the \<open>extractTokenFromResponse\<close> with
  the layered fallback (body, headers, cookie, status 201) and the plain
  \<open>storeAuthTokens\<close>.  \<open>getAuthToken\<close> and \<open>clearAuthTokens\<close> are the same in
  both.  The services import both functions from the one module, so a service runs
  with the two functions of one version.
\<close>

datatype authUtils = Version1 | Version2

record AxiosResponse =
  status :: int
  data :: jsval
  headers :: "(string \<times> string) list"

text \<open>\<open>response.headers?.[k]\<close>: header values are strings.\<close>

definition header :: "(string \<times> string) list \<Rightarrow> string \<Rightarrow> jsval" where
  "header hs k = (case map_of hs k of None \<Rightarrow> JUndefined | Some v \<Rightarrow> JStr v)"

definition getAuthToken :: "int \<Rightarrow> secure_store \<Rightarrow> string option" where
  "getAuthToken now store =
     (case getItemAsync AUTH_TOKEN store of
        None \<Rightarrow> None
      | Some token \<Rightarrow>
          (case getItemAsync TOKEN_EXPIRATION store of
             None \<Rightarrow> None
           | Some expirationStr \<Rightarrow>
               if token = [] \<or> expirationStr = [] then None
               else (case parseInt expirationStr of
                       None \<Rightarrow> None
                     | Some expiration \<Rightarrow> if now < expiration then Some token else None)))"

definition hasCookies :: "(string \<times> string) list \<Rightarrow> bool" where
  "hasCookies hs =
     list_ex (\<lambda>h. toLowerCase h = ''set-cookie'' \<or> str_includes (toLowerCase h) ''cookie'')
       (map fst hs)"

text \<open>\<open>s.replace(p, r)\<close> for strings: the first occurrence of \<open>p\<close> is replaced.\<close>

fun replace_first :: "string \<Rightarrow> string \<Rightarrow> string \<Rightarrow> string" where
  "replace_first [] p r = (if p = [] then r else [])"
| "replace_first (c # cs) p r =
     (if startsWith (c # cs) p then r @ drop (length p) (c # cs) else c # replace_first cs p r)"

text \<open>
  \<open>extractTokenFromResponse\<close> of the first version: the value of the \<open>||\<close> chain,
  whatever it is.
\<close>

definition extractTokenFromResponse_1 :: "AxiosResponse \<Rightarrow> jsval" where
  "extractTokenFromResponse_1 response =
     js_or (js_or (js_or (opt_prop (data response) ''accessToken'')
                         (opt_prop (data response) ''token''))
                  (header (headers response) ''x-auth-token''))
           (case map_of (headers response) ''authorization'' of
              None \<Rightarrow> JUndefined
            | Some a \<Rightarrow> JStr (replace_first a ''Bearer '' []))"

text \<open>
  The second version.  The bearer token of the \<open>authorization\<close> header, \<open>null\<close>
  without one.
\<close>

definition bearerHeader :: "(string \<times> string) list \<Rightarrow> jsval" where
  "bearerHeader hs =
     (case map_of hs ''authorization'' of
        None \<Rightarrow> JNull
      | Some a \<Rightarrow> if startsWith a ''Bearer '' then JStr (drop 7 a) else JNull)"

text \<open>
  The constant \<open>token\<close> of the function: the first truthy one of the body's
  \<open>accessToken\<close> and \<open>token\<close>, the \<open>x-auth-token\<close> header, the bearer header and the
  body's \<open>authToken\<close>.
\<close>

definition possibleToken :: "AxiosResponse \<Rightarrow> jsval" where
  "possibleToken response =
     js_or (js_or (js_or (js_or (opt_prop (data response) ''accessToken'')
                                (opt_prop (data response) ''token''))
                         (header (headers response) ''x-auth-token''))
                  (bearerHeader (headers response)))
           (opt_prop (data response) ''authToken'')"

text \<open>The result is \<open>JNull\<close> when nothing is found.\<close>

definition extractTokenFromResponse_2 :: "AxiosResponse \<Rightarrow> jsval" where
  "extractTokenFromResponse_2 response =
     (let found = possibleToken response
      in if truthy found then found
         else if 200 \<le> status response \<and> status response < 300 then
           (if hasCookies (headers response) then JStr ''cookie-based-auth''
            else if status response = 201 then JStr ''implicit-session-auth''
            else JNull)
         else JNull)"

fun extractTokenFromResponse :: "authUtils \<Rightarrow> AxiosResponse \<Rightarrow> jsval" where
  "extractTokenFromResponse Version1 response = extractTokenFromResponse_1 response"
| "extractTokenFromResponse Version2 response = extractTokenFromResponse_2 response"

record Tokens =
  accessToken :: jsval
  refreshToken :: jsval
  expiresIn :: jsval

text \<open>
  The three writes of \<open>Promise.all\<close> are all started; each one that is given a string
  is carried out, and the call rejects when one of them is refused.
\<close>

definition write_all :: "(string \<times> jsval) list \<Rightarrow> secure_store \<Rightarrow> unit settled \<times> secure_store" where
  "write_all writes store =
     (if list_all (\<lambda>kv. fst (setItemAsync (fst kv) (snd kv) store) = Resolved ()) writes
        then Resolved () else Rejected store_error,
      foldl (\<lambda>st kv. snd (setItemAsync (fst kv) (snd kv) st)) store writes)"

text \<open>\<open>storeAuthTokens\<close> of the first version, which recognises the implicit session.\<close>

definition storeAuthTokens_1 :: "expiry \<Rightarrow> Tokens \<Rightarrow> secure_store \<Rightarrow> unit settled \<times> secure_store" where
  "storeAuthTokens_1 expiry tokens store =
     (if accessToken tokens = JStr ''implicit-session-auth''
        then setItemAsync SESSION_COOKIE (JStr ''session-established'') store
      else
        (let tokenExpiration = expiry (expiresIn tokens)
         in write_all
              [(AUTH_TOKEN, accessToken tokens),
               (REFRESH_TOKEN, refreshToken tokens),
               (TOKEN_EXPIRATION, JStr tokenExpiration)] store))"

text \<open>\<open>storeAuthTokens\<close> of the second version: the three writes, whatever the token.\<close>

definition storeAuthTokens_2 :: "expiry \<Rightarrow> Tokens \<Rightarrow> secure_store \<Rightarrow> unit settled \<times> secure_store" where
  "storeAuthTokens_2 expiry tokens store =
     (let tokenExpiration = expiry (expiresIn tokens)
      in write_all
           [(AUTH_TOKEN, accessToken tokens),
            (REFRESH_TOKEN, refreshToken tokens),
            (TOKEN_EXPIRATION, JStr tokenExpiration)] store)"

fun storeAuthTokens ::
    "authUtils \<Rightarrow> expiry \<Rightarrow> Tokens \<Rightarrow> secure_store \<Rightarrow> unit settled \<times> secure_store" where
  "storeAuthTokens Version1 expiry tokens store = storeAuthTokens_1 expiry tokens store"
| "storeAuthTokens Version2 expiry tokens store = storeAuthTokens_2 expiry tokens store"

definition clearAuthTokens :: "secure_store \<Rightarrow> secure_store" where
  "clearAuthTokens store =
     deleteItemAsync TOKEN_EXPIRATION (deleteItemAsync REFRESH_TOKEN (deleteItemAsync AUTH_TOKEN store))"

section \<open>Error utilities (api/utils/errorUtils.ts)\<close>

text \<open>
  \<open>formatError\<close> in its updated version: the search for the backend's
  \<open>no user found\<close> text, then the switch on the status of the response.
\<close>

definition no_user_found_text :: "string \<Rightarrow> bool" where
  "no_user_found_text s =
     (str_includes s ''no user found'' \<or>
      str_includes s ''[authservice] no user found'' \<or>
      str_includes s ''[usersservice] searching user'')"

definition USER_NOT_FOUND_error :: jsval where
  "USER_NOT_FOUND_error =
     JObj [(''code'', JStr ''USER_NOT_FOUND''),
           (''message'', JStr ''No account found with this email. Please check your credentials or create an account.'')]"

text \<open>The \<open>switch\<close> on the status of a received response.\<close>

definition status_code :: "jsval \<Rightarrow> jsval \<Rightarrow> string" where
  "status_code st d =
     (if st = JNum 400 then ''BAD_REQUEST''
      else if st = JNum 401 then
        (if opt_prop d ''code'' = JStr ''TOKEN_EXPIRED'' then ''TOKEN_EXPIRED'' else ''UNAUTHORIZED'')
      else if st = JNum 403 then ''FORBIDDEN''
      else if st = JNum 404 then ''NOT_FOUND''
      else if st = JNum 409 then ''CONFLICT''
      else if st = JNum 429 then ''TOO_MANY_REQUESTS''
      else if st = JNum 500 \<or> st = JNum 502 \<or> st = JNum 503 \<or> st = JNum 504 then ''SERVER_ERROR''
      else ''SERVER_ERROR_'' @ js_to_string st)"

definition status_default_message :: "jsval \<Rightarrow> string" where
  "status_default_message st =
     (if st = JNum 400 then ''Invalid request''
      else if st = JNum 401 then ''Authentication required''
      else if st = JNum 403 then ''Access denied''
      else if st = JNum 404 then ''Resource not found''
      else if st = JNum 409 then ''Resource conflict''
      else if st = JNum 429 then ''Too many requests''
      else if st = JNum 500 \<or> st = JNum 502 \<or> st = JNum 503 \<or> st = JNum 504 then ''Server error''
      else ''Error '' @ js_to_string st)"

definition response_error :: "jsval \<Rightarrow> jsval" where
  "response_error response =
     (let st = get_prop response ''status''; d = get_prop response ''data''
      in JObj [(''code'', JStr (status_code st d)),
               (''message'', js_or (opt_prop d ''message'') (JStr (status_default_message st))),
               (''details'', d)])"

definition formatError :: "jsval \<Rightarrow> jsval + jsval" where
  "formatError err =
     (case stringify_lower err of
        Inl ex \<Rightarrow> Inl ex
      | Inr errorString \<Rightarrow>
          if no_user_found_text errorString then Inr USER_NOT_FOUND_error
          else if is_nullish err then Inl type_error
          else if truthy (get_prop err ''response'') then Inr (response_error (get_prop err ''response''))
          else if truthy (get_prop err ''request'') then
            Inr (JObj [(''code'', JStr ''NETWORK_ERROR''),
                       (''message'', JStr ''No response received from server''),
                       (''isNetworkError'', JBool True),
                       (''details'', get_prop err ''request'')])
          else
            Inr (JObj [(''code'', JStr ''REQUEST_SETUP_ERROR''),
                       (''message'', js_or (get_prop err ''message'') (JStr ''Error setting up request''))]))"

definition isAuthEndpoint :: "string option \<Rightarrow> string list \<Rightarrow> bool" where
  "isAuthEndpoint url endpoints =
     (case url of
        None \<Rightarrow> False
      | Some u \<Rightarrow> if u = [] then False else list_ex (\<lambda>endpoint. str_includes u endpoint) endpoints)"

section \<open>Application state\<close>

text \<open>
  What the services read and change: the secure store, the Redux auth slice, the static
  lock of \<open>BiometricService\<close>, and the requests handed to the network so far (URL
  and body, oldest first; \<open>JUndefined\<close> where there is no body).
\<close>

record app =
  secureStore :: secure_store
  authState :: AuthState
  biometricCheckLock :: bool
  network :: "(string \<times> jsval) list"

text \<open>The application right after start: nothing stored, logged out, no call made.\<close>

definition fresh_app :: app where
  "fresh_app =
     \<lparr>secureStore = Map.empty, authState = initialState, biometricCheckLock = False, network = []\<rparr>"

section \<open>Interceptors (api/utils/interceptorUtils.ts)\<close>

record RequestConfig =
  url :: "string option"
  config_headers :: "string \<Rightarrow> string option"
  withCredentials :: bool

definition authEndpoints :: "string list" where
  "authEndpoints = [LOGIN, REGISTER, FORGOT_PASSWORD, TOKEN_REFRESH, VERIFY_EMAIL, RESET_PASSWORD]"

definition requestInterceptor :: "int \<Rightarrow> secure_store \<Rightarrow> RequestConfig \<Rightarrow> RequestConfig" where
  "requestInterceptor now store config =
     (let config = config\<lparr>withCredentials := True\<rparr>
      in if \<not> isAuthEndpoint (url config) authEndpoints then
           (case getAuthToken now store of
              None \<Rightarrow> config
            | Some token \<Rightarrow>
                if token \<noteq> [] \<and> token \<noteq> ''session-based-auth''
                  then config\<lparr>config_headers := (config_headers config)(''Authorization'' \<mapsto> ''Bearer '' @ token)\<rparr>
                else config)
         else config)"

text \<open>
  The rejection handler of the response interceptor.  It always rejects: with the
  formatted error, or with what is thrown on the way.  \<open>with_store\<close> tells whether a
  Redux store was passed to \<open>setupResponseInterceptor\<close>.
\<close>

definition responseError :: "bool \<Rightarrow> jsval \<Rightarrow> app \<Rightarrow> jsval \<times> app" where
  "responseError with_store err st =
     (if is_nullish err then (type_error, st)
      else
        (let st' =
           (if opt_prop (get_prop err ''response'') ''status'' = JNum 401 \<and> with_store
              then st\<lparr>authState := logoutSuccess (authState st),
                      secureStore := deleteItemAsync SESSION_COOKIE (secureStore st)\<rparr>
            else st)
         in case formatError err of
              Inl ex \<Rightarrow> (ex, st')
            | Inr formattedError \<Rightarrow> (formattedError, st')))"

section \<open>API client (api/ApiClient.ts)\<close>

text \<open>
  A request of the singleton client has two halves: the call hands the request to the
  network, and later the promise settles.  \<open>outcome\<close> is how the transport settles it,
  before the response interceptor: \<open>Resolved\<close> with the response, or \<open>Rejected\<close>
  with the transport's error.  The client installs the response interceptor without a
  Redux store.
\<close>

definition issue_request :: "string \<Rightarrow> jsval \<Rightarrow> app \<Rightarrow> app" where
  "issue_request u body st = st\<lparr>network := network st @ [(u, body)]\<rparr>"

definition settle_request :: "AxiosResponse settled \<Rightarrow> app \<Rightarrow> AxiosResponse settled \<times> app" where
  "settle_request outcome st =
     (case outcome of
        Resolved response \<Rightarrow> (Resolved response, st)
      | Rejected err \<Rightarrow> (Rejected (fst (responseError False err st)), snd (responseError False err st)))"

definition apiClient_request ::
    "string \<Rightarrow> jsval \<Rightarrow> AxiosResponse settled \<Rightarrow> app \<Rightarrow> AxiosResponse settled \<times> app" where
  "apiClient_request u body outcome st = settle_request outcome (issue_request u body st)"

section \<open>Service results\<close>

text \<open>
  \<open>ApiResponse\<close>: \<open>success\<close> and the optional \<open>data\<close>, \<open>error\<close> and \<open>status\<close>
  properties of the object a service returns.
\<close>

record ApiResponse =
  success :: bool
  res_data :: "jsval option"
  res_error :: "jsval option"
  res_status :: "int option"

definition error_object :: "jsval \<Rightarrow> jsval \<Rightarrow> jsval" where
  "error_object c m = JObj [(''code'', c), (''message'', m)]"

text \<open>\<open>{ success: false, error }\<close> and \<open>{ success: false, error, status }\<close>\<close>

definition failure :: "jsval \<Rightarrow> ApiResponse" where
  "failure e = \<lparr>success = False, res_data = None, res_error = Some e, res_status = None\<rparr>"

definition failure_status :: "jsval \<Rightarrow> int \<Rightarrow> ApiResponse" where
  "failure_status e s = \<lparr>success = False, res_data = None, res_error = Some e, res_status = Some s\<rparr>"

text \<open>
  An asynchronous call either returns before its first \<open>await\<close> or is suspended there.
\<close>

datatype 'a started = Returned 'a | Awaiting

section \<open>BiometricService.authenticate\<close>

definition handleAuthSuccess :: "expiry \<Rightarrow> jsval \<Rightarrow> secure_store \<Rightarrow> unit settled \<times> secure_store" where
  "handleAuthSuccess expiry d store =
     (let failed = Rejected (JHost (Some ''{}'') [(''message'', JStr ''Failed to store authentication tokens'')])
      in case setItemAsync ''authToken'' (get_prop d ''token'') store of
           (Rejected ex, s1) \<Rightarrow> (failed, s1)
         | (Resolved u, s1) \<Rightarrow>
             (case (if truthy (get_prop d ''refreshToken'')
                      then setItemAsync ''tokenExpiration'' (get_prop d ''refreshToken'') s1
                    else (Resolved (), s1)) of
                (Rejected ex, s2) \<Rightarrow> (failed, s2)
              | (Resolved u, s2) \<Rightarrow>
                  (case setItemAsync ''tokenExpiration''
                          (JStr (expiry (get_prop d ''expiresIn''))) s2 of
                     (Rejected ex, s3) \<Rightarrow> (failed, s3)
                   | (Resolved u, s3) \<Rightarrow> (Resolved (), s3))))"

text \<open>The part of \<open>authenticate\<close> up to its first \<open>await\<close>: the lock test and the request.\<close>

definition in_progress_result :: ApiResponse where
  "in_progress_result =
     failure (error_object (JStr ''OPERATION_IN_PROGRESS'') (JStr ''Biometric check already in progress''))"

definition authenticate_begin :: "jsval \<Rightarrow> app \<Rightarrow> ApiResponse started \<times> app" where
  "authenticate_begin request st =
     (if biometricCheckLock st then (Returned in_progress_result, st)
      else (Awaiting, issue_request BIOMETRIC_AUTH request (st\<lparr>biometricCheckLock := True\<rparr>)))"

text \<open>The \<open>catch\<close> clause of \<open>authenticate\<close>.\<close>

definition authenticate_catch :: "jsval \<Rightarrow> ApiResponse settled" where
  "authenticate_catch err =
     (if is_nullish err then Rejected type_error
      else Resolved (failure
        (JObj [(''code'', js_or (opt_prop (opt_prop (get_prop err ''response'') ''data'') ''code'')
                            (JStr ''AUTH_FAILED'')),
               (''message'', js_or (opt_prop (opt_prop (get_prop err ''response'') ''data'') ''message'')
                               (JStr ''Biometric authentication failed'')),
               (''details'', err)])))"

text \<open>The rest of \<open>authenticate\<close>, once the request has settled.\<close>

definition authenticate_resume :: "expiry \<Rightarrow> AxiosResponse settled \<Rightarrow> app \<Rightarrow> ApiResponse settled \<times> app" where
  "authenticate_resume expiry outcome st =
     (case settle_request outcome st of
        (Rejected err, st1) \<Rightarrow> (authenticate_catch err, st1)
      | (Resolved response, st1) \<Rightarrow>
          if truthy (data response) then
            (case handleAuthSuccess expiry (data response) (secureStore st1) of
               (Rejected err, store') \<Rightarrow> (authenticate_catch err, st1\<lparr>secureStore := store'\<rparr>)
             | (Resolved u, store') \<Rightarrow>
                 (Resolved \<lparr>success = True, res_data = Some (data response), res_error = None,
                            res_status = None\<rparr>,
                  st1\<lparr>secureStore := store'\<rparr>))
          else (Resolved (failure (error_object (JStr ''NO_DATA'') (JStr ''Empty response''))), st1))"

text \<open>A call of \<open>authenticate\<close> that runs to its end before anything else happens.\<close>

definition authenticate ::
    "expiry \<Rightarrow> jsval \<Rightarrow> AxiosResponse settled \<Rightarrow> app \<Rightarrow> ApiResponse settled \<times> app" where
  "authenticate expiry request outcome st =
     (case authenticate_begin request st of
        (Returned r, st1) \<Rightarrow> (Resolved r, st1)
      | (Awaiting, st1) \<Rightarrow> authenticate_resume expiry outcome st1)"

text \<open>
  Calls of \<open>authenticate\<close> one after the other, each with its request and the outcome
  the request would have; the results, oldest first, and the final state.
\<close>

fun authenticate_all ::
    "expiry \<Rightarrow> (jsval \<times> AxiosResponse settled) list \<Rightarrow> app \<Rightarrow> ApiResponse settled list \<times> app" where
  "authenticate_all expiry [] st = ([], st)"
| "authenticate_all expiry (call # calls) st =
     (let (r, st1) = authenticate expiry (fst call) (snd call) st;
          (rs, st2) = authenticate_all expiry calls st1
      in (r # rs, st2))"

section \<open>AuthService\<close>

text \<open>
  The service in its updated version: \<open>login\<close> with the checks for the backend's
  texts, \<open>logout\<close> with a \<open>finally\<close> clause, \<open>validateSession\<close> with the session
  marker.  Every operation takes the outcome of its one request as an argument, and
  those that store tokens the version of the token utilities they run with.
\<close>

text \<open>The token triple every login path stores.\<close>

definition response_tokens :: "jsval \<Rightarrow> jsval \<Rightarrow> Tokens" where
  "response_tokens token d =
     \<lparr>accessToken = token,
      refreshToken = js_or (opt_prop d ''refreshToken'') (JStr ''session-auth''),
      expiresIn = js_or (opt_prop d ''expiresIn'') (JNum 86400)\<rparr>"

definition ok_response :: "AxiosResponse \<Rightarrow> ApiResponse" where
  "ok_response response =
     \<lparr>success = True, res_data = Some (data response), res_error = None,
      res_status = Some (status response)\<rparr>"

definition headers_object :: "(string \<times> string) list \<Rightarrow> jsval" where
  "headers_object hs = JObj (map (\<lambda>kv. (fst kv, JStr (snd kv))) hs)"

subsection \<open>login\<close>

text \<open>\<open>v?.includes(p)\<close>: strings and arrays have the method; calling it elsewhere throws.\<close>

fun includes_call :: "jsval \<Rightarrow> string \<Rightarrow> jsval + bool" where
  "includes_call JUndefined p = Inr False"
| "includes_call JNull p = Inr False"
| "includes_call (JStr s) p = Inr (str_includes s p)"
| "includes_call (JArr xs) p = Inr (JStr p \<in> set xs)"
| "includes_call v p = Inl type_error"

text \<open>The \<open>try\<close> block of \<open>login\<close> after the response has arrived.\<close>

definition login_try :: "authUtils \<Rightarrow> expiry \<Rightarrow> AxiosResponse \<Rightarrow> app \<Rightarrow> ApiResponse settled \<times> app" where
  "login_try utils expiry response st =
     (let d = data response in
      if is_nullish d then (Rejected type_error, st)
      else if \<not> truthy (get_prop d ''success'') \<and> truthy (get_prop d ''error'')
        then (Resolved (failure_status (get_prop d ''error'') (status response)), st)
      else
        (case stringify_lower (headers_object (headers response)) of
           Inl ex \<Rightarrow> (Rejected ex, st)
         | Inr responseHeaders \<Rightarrow>
        (case stringify_lower (js_or d (JObj [])) of
           Inl ex \<Rightarrow> (Rejected ex, st)
         | Inr responseData \<Rightarrow>
             if str_includes responseHeaders ''no user found'' \<or> str_includes responseData ''no user found''
               then (Resolved (failure_status USER_NOT_FOUND_error (status response)), st)
             else if 200 \<le> status response \<and> status response < 300 then
               (let token = extractTokenFromResponse utils response in
                if truthy token then
                  (case storeAuthTokens utils expiry (response_tokens token d) (secureStore st) of
                     (Rejected ex, store') \<Rightarrow> (Rejected ex, st\<lparr>secureStore := store'\<rparr>)
                   | (Resolved u, store') \<Rightarrow>
                       (Resolved (ok_response response), st\<lparr>secureStore := store'\<rparr>))
                else
                  (Resolved (failure_status
                     (error_object (JStr ''AUTH_TOKEN_MISSING'')
                        (JStr ''Authentication failed. Please check your email and password.''))
                     (status response)), st))
             else
               (Resolved (failure_status
                  (error_object (js_or (opt_prop d ''code'') (JStr ''AUTH_ERROR''))
                     (js_or (opt_prop d ''message'') (JStr ''Authentication failed'')))
                  (status response)), st))))"

text \<open>The \<open>catch\<close> clause of \<open>login\<close>.\<close>

definition login_catch :: "jsval \<Rightarrow> ApiResponse settled" where
  "login_catch err =
     (case formatError err of
        Inl ex \<Rightarrow> Rejected ex
      | Inr formattedError \<Rightarrow>
        (let errorResponse =
               (if object_with ''response'' err then opt_prop (get_prop err ''response'') ''data''
                else JNull)
         in case (if object_with ''response'' err
                    then stringify_lower (js_or (get_prop err ''response'') (JObj []))
                  else Inr []) of
              Inl ex \<Rightarrow> Rejected ex
            | Inr errorText \<Rightarrow>
                if no_user_found_text errorText then Resolved (failure USER_NOT_FOUND_error)
                else if str_includes errorText ''invalid password'' \<or>
                        str_includes errorText ''incorrect password''
                  then Resolved (failure (error_object (JStr ''INVALID_CREDENTIALS'')
                         (JStr ''Invalid password. Please check your credentials and try again.'')))
                else
                  (case includes_call (get_prop formattedError ''message'') ''network'' of
                     Inl ex \<Rightarrow> Rejected ex
                   | Inr about_network \<Rightarrow>
                       if about_network \<or> \<not> truthy errorResponse
                         then Resolved (failure (error_object (JStr ''NETWORK_ERROR'')
                                (JStr ''Network connection error. Please check your internet connection.'')))
                       else Resolved (failure
                              (js_or (get_prop formattedError ''error'')
                                 (error_object
                                    (js_or (opt_prop errorResponse ''code'') (JStr ''AUTH_ERROR''))
                                    (js_or (js_or (opt_prop errorResponse ''message'')
                                                  (get_prop formattedError ''message''))
                                           (JStr ''Authentication failed''))))))))"

record LoginRequest =
  user_identifier :: string
  password :: string

definition login ::
    "authUtils \<Rightarrow> expiry \<Rightarrow> LoginRequest \<Rightarrow> AxiosResponse settled \<Rightarrow> app \<Rightarrow> ApiResponse settled \<times> app" where
  "login utils expiry credentials outcome st =
     (case apiClient_request LOGIN
             (JObj [(''identifier'', JStr (user_identifier credentials)),
                    (''password'', JStr (password credentials))]) outcome st of
        (Rejected err, st1) \<Rightarrow> (login_catch err, st1)
      | (Resolved response, st1) \<Rightarrow>
          (case login_try utils expiry response st1 of
             (Rejected err, st2) \<Rightarrow> (login_catch err, st2)
           | (Resolved r, st2) \<Rightarrow> (Resolved r, st2)))"

subsection \<open>loginWithBiometricFallback\<close>

text \<open>Only the \<open>identifier\<close> of the credentials is posted.\<close>

definition loginWithBiometricFallback_begin :: "string \<Rightarrow> app \<Rightarrow> ApiResponse started \<times> app" where
  "loginWithBiometricFallback_begin ident st =
     (Awaiting, issue_request BIOMETRIC_AUTH (JObj [(''identifier'', JStr ident)]) st)"

definition biometric_failed :: jsval where
  "biometric_failed = error_object (JStr ''AUTH_ERROR'') (JStr ''Biometric authentication failed'')"

text \<open>
  \<open>loginWithBiometricFallback\<close>, \<open>loginWithGoogle\<close> and \<open>register\<close> treat the
  response alike, up to the error they fall back to: a 2xx response with a token is
  stored and reported as success, any other response as the fallback error with the
  status.  A rejected store write is thrown to the \<open>catch\<close> clause.
\<close>

definition store_token_or_fail :: "authUtils \<Rightarrow> expiry \<Rightarrow> jsval \<Rightarrow> AxiosResponse \<Rightarrow> app \<Rightarrow> ApiResponse settled \<times> app" where
  "store_token_or_fail utils expiry fallback response st =
     (if 200 \<le> status response \<and> status response < 300
         \<and> truthy (extractTokenFromResponse utils response)
      then
        (case storeAuthTokens utils expiry
                (response_tokens (extractTokenFromResponse utils response) (data response))
                (secureStore st) of
           (Rejected ex, store') \<Rightarrow> (Rejected ex, st\<lparr>secureStore := store'\<rparr>)
         | (Resolved u, store') \<Rightarrow> (Resolved (ok_response response), st\<lparr>secureStore := store'\<rparr>))
      else (Resolved (failure_status fallback (status response)), st))"

text \<open>\<open>{ success: false, error: formatError(error).error || fallback }\<close>\<close>

definition fallback_catch :: "jsval \<Rightarrow> jsval \<Rightarrow> ApiResponse settled" where
  "fallback_catch fallback err =
     (case formatError err of
        Inl ex \<Rightarrow> Rejected ex
      | Inr formattedError \<Rightarrow>
          Resolved (failure (js_or (get_prop formattedError ''error'') fallback)))"

definition loginWithBiometricFallback_resume ::
    "authUtils \<Rightarrow> expiry \<Rightarrow> AxiosResponse settled \<Rightarrow> app \<Rightarrow> ApiResponse settled \<times> app" where
  "loginWithBiometricFallback_resume utils expiry outcome st =
     (case settle_request outcome st of
        (Rejected err, st1) \<Rightarrow> (fallback_catch biometric_failed err, st1)
      | (Resolved response, st1) \<Rightarrow>
          (case store_token_or_fail utils expiry biometric_failed response st1 of
             (Rejected ex, st2) \<Rightarrow> (fallback_catch biometric_failed ex, st2)
           | (Resolved r, st2) \<Rightarrow> (Resolved r, st2)))"

definition loginWithBiometricFallback ::
    "authUtils \<Rightarrow> expiry \<Rightarrow> string \<Rightarrow> AxiosResponse settled \<Rightarrow> app \<Rightarrow> ApiResponse settled \<times> app" where
  "loginWithBiometricFallback utils expiry ident outcome st =
     loginWithBiometricFallback_resume utils expiry outcome (snd (loginWithBiometricFallback_begin ident st))"

subsection \<open>loginWithGoogle\<close>

definition google_failed :: jsval where
  "google_failed = error_object (JStr ''GOOGLE_AUTH'') (JStr ''Google authentication failed'')"

definition loginWithGoogle ::
    "authUtils \<Rightarrow> expiry \<Rightarrow> string \<Rightarrow> AxiosResponse settled \<Rightarrow> app \<Rightarrow> ApiResponse settled \<times> app" where
  "loginWithGoogle utils expiry token outcome st =
     (case apiClient_request GOOGLE_AUTH (JObj [(''accessToken'', JStr token)]) outcome st of
        (Rejected err, st1) \<Rightarrow> (fallback_catch google_failed err, st1)
      | (Resolved response, st1) \<Rightarrow>
          (case store_token_or_fail utils expiry google_failed response st1 of
             (Rejected ex, st2) \<Rightarrow> (fallback_catch google_failed ex, st2)
           | (Resolved r, st2) \<Rightarrow> (Resolved r, st2)))"

subsection \<open>register\<close>

definition registration_failed :: jsval where
  "registration_failed = error_object (JStr ''REGISTRATION_ERROR'') (JStr ''Registration failed'')"

definition register_catch :: "jsval \<Rightarrow> ApiResponse settled" where
  "register_catch err =
     (case stringify_lower err of
        Inl ex \<Rightarrow> Rejected ex
      | Inr errorStr \<Rightarrow>
          if str_includes errorStr ''email already exists'' \<or> str_includes errorStr ''duplicate''
            then Resolved (failure (error_object (JStr ''EMAIL_ALREADY_EXISTS'')
                   (JStr ''An account with this email already exists. Please try logging in instead.'')))
          else fallback_catch registration_failed err)"

definition register ::
    "authUtils \<Rightarrow> expiry \<Rightarrow> jsval \<Rightarrow> AxiosResponse settled \<Rightarrow> app \<Rightarrow> ApiResponse settled \<times> app" where
  "register utils expiry userData outcome st =
     (case apiClient_request REGISTER userData outcome st of
        (Rejected err, st1) \<Rightarrow> (register_catch err, st1)
      | (Resolved response, st1) \<Rightarrow>
          (case store_token_or_fail utils expiry registration_failed response st1 of
             (Rejected ex, st2) \<Rightarrow> (register_catch ex, st2)
           | (Resolved r, st2) \<Rightarrow> (Resolved r, st2)))"

subsection \<open>forgotPassword, resetPassword, verifyToken\<close>

text \<open>\<open>{ success: response.status >= 200 && response.status < 300, data, status }\<close>\<close>

definition status_result :: "AxiosResponse \<Rightarrow> ApiResponse" where
  "status_result response =
     \<lparr>success = (200 \<le> status response \<and> status response < 300),
      res_data = Some (data response), res_error = None, res_status = Some (status response)\<rparr>"

definition forgotPassword_catch :: "jsval \<Rightarrow> ApiResponse settled" where
  "forgotPassword_catch err =
     (case stringify_lower err of
        Inl ex \<Rightarrow> Rejected ex
      | Inr errorStr \<Rightarrow>
          if str_includes errorStr ''no user found'' \<or> str_includes errorStr ''user not found''
            then Resolved (failure (error_object (JStr ''USER_NOT_FOUND'')
                   (JStr ''No account found with this email. Please check your email or create an account.'')))
          else fallback_catch (error_object (JStr ''FORGOT_PASSWORD_ERROR'')
                 (JStr ''Failed to process forgot password request'')) err)"

definition forgotPassword :: "string \<Rightarrow> AxiosResponse settled \<Rightarrow> app \<Rightarrow> ApiResponse settled \<times> app" where
  "forgotPassword email outcome st =
     (case apiClient_request FORGOT_PASSWORD (JObj [(''email'', JStr email)]) outcome st of
        (Rejected err, st1) \<Rightarrow> (forgotPassword_catch err, st1)
      | (Resolved response, st1) \<Rightarrow> (Resolved (status_result response), st1))"

definition resetPassword_catch :: "jsval \<Rightarrow> ApiResponse settled" where
  "resetPassword_catch err =
     (case stringify_lower err of
        Inl ex \<Rightarrow> Rejected ex
      | Inr errorStr \<Rightarrow>
          if str_includes errorStr ''token expired'' \<or> str_includes errorStr ''invalid token''
            then Resolved (failure (error_object (JStr ''RESET_TOKEN_INVALID'')
                   (JStr ''This password reset link has expired or is invalid. Please request a new one.'')))
          else fallback_catch (error_object (JStr ''RESET_PASSWORD_ERROR'')
                 (JStr ''Failed to reset password'')) err)"

definition resetPassword ::
    "string \<Rightarrow> string \<Rightarrow> AxiosResponse settled \<Rightarrow> app \<Rightarrow> ApiResponse settled \<times> app" where
  "resetPassword token newPassword outcome st =
     (case apiClient_request RESET_PASSWORD
             (JObj [(''token'', JStr token), (''newPassword'', JStr newPassword)]) outcome st of
        (Rejected err, st1) \<Rightarrow> (resetPassword_catch err, st1)
      | (Resolved response, st1) \<Rightarrow> (Resolved (status_result response), st1))"

definition verifyToken :: "string \<Rightarrow> AxiosResponse settled \<Rightarrow> app \<Rightarrow> ApiResponse settled \<times> app" where
  "verifyToken token outcome st =
     (case apiClient_request TOKEN_REFRESH (JObj [(''token'', JStr token)]) outcome st of
        (Rejected err, st1) \<Rightarrow>
          (fallback_catch (error_object (JStr ''TOKEN_VERIFICATION_ERROR'')
             (JStr ''Token verification failed'')) err, st1)
      | (Resolved response, st1) \<Rightarrow> (Resolved (status_result response), st1))"

subsection \<open>logout\<close>

text \<open>
  \<open>logout\<close> resolves to nothing (\<open>None\<close>) when the request succeeds and returns
  \<open>Promise.reject(error)\<close> from its \<open>catch\<close> clause; the \<open>finally\<close> clause runs in
  both cases.
\<close>

definition logout_finally :: "app \<Rightarrow> app" where
  "logout_finally st =
     st\<lparr>secureStore := deleteItemAsync REFRESH_TOKEN (deleteItemAsync AUTH_TOKEN (secureStore st)),
        authState := logoutSuccess (authState st)\<rparr>"

definition logout :: "AxiosResponse settled \<Rightarrow> app \<Rightarrow> ApiResponse option settled \<times> app" where
  "logout outcome st =
     (case apiClient_request LOGOUT JUndefined outcome st of
        (Rejected err, st1) \<Rightarrow> (Rejected err, logout_finally st1)
      | (Resolved response, st1) \<Rightarrow> (Resolved None, logout_finally st1))"

subsection \<open>validateSession\<close>

definition session_result :: "bool \<Rightarrow> jsval option \<Rightarrow> ApiResponse" where
  "session_result ok e =
     \<lparr>success = ok, res_data = Some (JObj [(''isAuthenticated'', JBool ok)]), res_error = e,
      res_status = None\<rparr>"

definition validateSession :: "AxiosResponse settled \<Rightarrow> app \<Rightarrow> ApiResponse settled \<times> app" where
  "validateSession outcome st =
     (if getItemAsync SESSION_COOKIE (secureStore st) = Some ''session-established''
        then (Resolved (session_result True None), st)
      else
        (case apiClient_request USER_PROFILE JUndefined outcome st of
           (Resolved response, st1) \<Rightarrow> (Resolved (session_result True None), st1)
         | (Rejected err, st1) \<Rightarrow>
             (case formatError err of
                Inl ex \<Rightarrow> (Rejected ex, st1)
              | Inr formattedError \<Rightarrow> (Resolved (session_result False (Some formattedError)), st1))))"

section \<open>Vocabulary of the properties\<close>

text \<open>The codes \<open>formatError\<close> assigns, apart from the \<open>SERVER_ERROR_<status>\<close> family.\<close>

definition formatError_codes :: "string list" where
  "formatError_codes = [''USER_NOT_FOUND'', ''BAD_REQUEST'', ''TOKEN_EXPIRED'', ''UNAUTHORIZED'',
     ''FORBIDDEN'', ''NOT_FOUND'', ''CONFLICT'', ''TOO_MANY_REQUESTS'', ''SERVER_ERROR'',
     ''NETWORK_ERROR'', ''REQUEST_SETUP_ERROR'']"

text \<open>
  A normalized error: an object whose \<open>code\<close> is one of these strings or starts with
  \<open>SERVER_ERROR_\<close>, and whose \<open>message\<close> is not empty.
\<close>

definition normalized_error :: "jsval \<Rightarrow> bool" where
  "normalized_error e =
     (case get_prop e ''code'' of
        JStr c \<Rightarrow> (c \<in> set formatError_codes \<or> startsWith c ''SERVER_ERROR_'')
                  \<and> truthy (get_prop e ''message'')
      | _ \<Rightarrow> False)"

text \<open>
  What a request of the client rejects with when the transport rejects with \<open>err\<close>:
  the value the response interceptor passes on.
\<close>

definition delivered :: "jsval \<Rightarrow> jsval" where
  "delivered err =
     (if is_nullish err then type_error
      else case formatError err of Inl ex \<Rightarrow> ex | Inr formattedError \<Rightarrow> formattedError)"

text \<open>A value that can be serialized and whose \<open>message\<close> is a string or an array.\<close>

definition readable :: "jsval \<Rightarrow> bool" where
  "readable c =
     (serializable c \<and>
      (case get_prop c ''message'' of JStr s \<Rightarrow> True | JArr xs \<Rightarrow> True | _ \<Rightarrow> False))"

text \<open>
  What the \<open>catch\<close> clauses handle without throwing themselves: a readable value
  that is not \<open>null\<close> or \<open>undefined\<close> and has no \<open>response\<close> and no
  \<open>request\<close>.
\<close>

definition caught_ok :: "jsval \<Rightarrow> bool" where
  "caught_ok c =
     (readable c \<and> \<not> is_nullish c \<and> get_prop c ''response'' = JUndefined
      \<and> get_prop c ''request'' = JUndefined \<and> \<not> object_with ''response'' c)"

text \<open>An error object with a code and a message.\<close>

definition coded_error :: "jsval \<Rightarrow> bool" where
  "coded_error e =
     (case get_prop e ''code'' of
        JStr c \<Rightarrow> c \<noteq> [] \<and> truthy (get_prop e ''message'')
      | _ \<Rightarrow> False)"

text \<open>A promise that resolved to a failure result carrying such an error.\<close>

definition failure_result :: "ApiResponse settled \<Rightarrow> bool" where
  "failure_result x =
     (case x of
        Rejected ex \<Rightarrow> False
      | Resolved r \<Rightarrow>
          \<not> success r \<and> (case res_error r of None \<Rightarrow> False | Some e \<Rightarrow> coded_error e))"

text \<open>A promise that resolved to a result, a failure carrying some error.\<close>

definition some_result :: "ApiResponse settled \<Rightarrow> bool" where
  "some_result x =
     (case x of
        Rejected ex \<Rightarrow> False
      | Resolved r \<Rightarrow> success r \<or> res_error r \<noteq> None)"

text \<open>
  The error Axios rejects with when the backend answers status 400 with the body
  \<open>{message: "Invalid request"}\<close> to the login of \<open>a@b.com\<close>.  Its \<open>toJSON\<close> gives
  the message, the name, the request configuration, the code and the status.
\<close>

definition login_body :: jsval where
  "login_body = JObj [(''identifier'', JStr ''a@b.com''), (''password'', JStr ''short'')]"

definition bad_request_error :: jsval where
  "bad_request_error =
     JHost (Some (json_text (JObj
              [(''message'', JStr ''Request failed with status code 400''),
               (''name'', JStr ''AxiosError''),
               (''config'', JObj [(''url'', JStr LOGIN), (''method'', JStr ''post''),
                                  (''data'', JStr (json_text login_body))]),
               (''code'', JStr ''ERR_BAD_REQUEST''),
               (''status'', JNum 400)])))
       [(''message'', JStr ''Request failed with status code 400''),
        (''name'', JStr ''AxiosError''),
        (''code'', JStr ''ERR_BAD_REQUEST''),
        (''request'', JObj []),
        (''response'', JObj [(''status'', JNum 400),
                             (''data'', JObj [(''message'', JStr ''Invalid request'')]),
                             (''headers'', JObj [])])]"

text \<open>The error Axios rejects with when the logout request gets no response.\<close>

definition network_failure :: jsval where
  "network_failure =
     JHost (Some (json_text (JObj
              [(''message'', JStr ''Network Error''),
               (''name'', JStr ''AxiosError''),
               (''config'', JObj [(''url'', JStr LOGOUT), (''method'', JStr ''post'')]),
               (''code'', JStr ''ERR_NETWORK'')])))
       [(''message'', JStr ''Network Error''),
        (''name'', JStr ''AxiosError''),
        (''code'', JStr ''ERR_NETWORK''),
        (''request'', JObj [])]"

text \<open>An application that holds all four stored secrets and is signed in.\<close>

definition signed_in_store :: secure_store where
  "signed_in_store =
     [AUTH_TOKEN \<mapsto> ''tok'', REFRESH_TOKEN \<mapsto> ''ref'', TOKEN_EXPIRATION \<mapsto> ''5000'',
      SESSION_COOKIE \<mapsto> ''session-established'']"

definition signed_in_app :: app where
  "signed_in_app =
     \<lparr>secureStore = signed_in_store,
      authState = \<lparr>isAuthenticated = True, sessionValidated = True, loading = False, error = None\<rparr>,
      biometricCheckLock = False, network = []\<rparr>"

text \<open>A request for the user profile, no header set yet.\<close>

definition profile_request :: RequestConfig where
  "profile_request = \<lparr>url = Some USER_PROFILE, config_headers = Map.empty, withCredentials = False\<rparr>"

text \<open>A login answer with status 201, no token, no cookie, and the backend's debug text.\<close>

definition created_no_user :: AxiosResponse where
  "created_no_user =
     \<lparr>status = 201, data = JObj [(''message'', JStr ''No user found'')], headers = []\<rparr>"

text \<open>A login answer with status 201 and nothing but the user's id.\<close>

definition created_plain :: AxiosResponse where
  "created_plain = \<lparr>status = 201, data = JObj [(''id'', JNum 7)], headers = []\<rparr>"

text \<open>An answer whose \<open>accessToken\<close> is the empty string, with a token in a header.\<close>

definition empty_accessToken :: AxiosResponse where
  "empty_accessToken =
     \<lparr>status = 200, data = JObj [(''accessToken'', JStr [])],
      headers = [(''x-auth-token'', ''from-header'')]\<rparr>"

definition body_and_header_token :: AxiosResponse where
  "body_and_header_token =
     \<lparr>status = 200, data = JObj [(''accessToken'', JStr ''from-body''), (''token'', JStr ''other'')],
      headers = [(''x-auth-token'', ''from-header''), (''authorization'', ''Bearer from-bearer'')]\<rparr>"

text \<open>
  The expiration string at the instant 0 for the default lifetime of 86400 seconds, which
  is the lifetime of every token stored in the examples.
\<close>

definition day_expiry :: expiry where
  "day_expiry v = ''86400000''"

definition a_b_com :: LoginRequest where
  "a_b_com = \<lparr>user_identifier = ''a@b.com'', password = ''short''\<rparr>"

section \<open>Properties\<close>

lemmas storage_keys = AUTH_TOKEN_def REFRESH_TOKEN_def TOKEN_EXPIRATION_def SESSION_COOKIE_def

subsection \<open>Basic facts\<close>

lemma stringify_lower_cases:
  "stringify_lower e =
     (if serializable e \<and> e \<noteq> JUndefined then Inr (toLowerCase (json_text e)) else Inl type_error)"
  by (simp add: stringify_lower_def JSON_stringify_def)

lemma responseError_delivered: "responseError False err st = (delivered err, st)"
  by (simp add: responseError_def delivered_def Let_def split: sum.splits)

lemma settle_request_rejected:
  "settle_request (Rejected err) st = (Rejected (delivered err), st)"
  by (simp add: settle_request_def responseError_delivered)

lemma apiClient_rejected:
  "apiClient_request u body (Rejected err) st = (Rejected (delivered err), issue_request u body st)"
  by (simp add: apiClient_request_def settle_request_rejected)

lemma apiClient_resolved:
  "apiClient_request u body (Resolved response) st = (Resolved response, issue_request u body st)"
  by (simp add: apiClient_request_def settle_request_def)

subsection \<open>Auth state\<close>

lemma sessionValidated_needs_action:
  "\<not> sessionValidated s \<Longrightarrow> SessionValidated \<notin> set acts \<Longrightarrow>
   \<not> sessionValidated (foldl authReducer s acts)"
proof (induction acts arbitrary: s)
  case Nil
  then show ?case by simp
next
  case (Cons a acts)
  have "\<not> sessionValidated (authReducer s a)"
    using Cons.prems
    by (cases a) (simp_all add: loginStart_def loginSuccess_def loginFailure_def logoutSuccess_def)
  moreover have "SessionValidated \<notin> set acts"
    using Cons.prems by simp
  ultimately show ?case
    using Cons.IH by simp
qed

text \<open>
  C10.  The \<open>logoutSuccess\<close> transition sets all four fields of the auth state:
  \<open>isAuthenticated = false\<close>, \<open>sessionValidated = false\<close>, \<open>loading = false\<close> and
  \<open>error = null\<close>.  The \<open>sessionValidated\<close> flag does not survive a logout, and
  after a logout it reads true again only once the \<open>sessionValidated\<close> action has
  been dispatched: no other action of the slice (in particular a new login) sets it.
\<close>

theorem logoutSuccess_resets_all_fields:
  "logoutSuccess s =
     \<lparr>isAuthenticated = False, sessionValidated = False, loading = False, error = None\<rparr>
   \<and> (\<forall>acts. sessionValidated (dispatch_all (logoutSuccess s) acts)
         \<longrightarrow> SessionValidated \<in> set acts)"
proof
  show "logoutSuccess s =
     \<lparr>isAuthenticated = False, sessionValidated = False, loading = False, error = None\<rparr>"
    by (simp add: logoutSuccess_def)
next
  have "\<not> sessionValidated (logoutSuccess s)"
    by (simp add: logoutSuccess_def)
  then show "\<forall>acts. sessionValidated (dispatch_all (logoutSuccess s) acts)
         \<longrightarrow> SessionValidated \<in> set acts"
    unfolding dispatch_all_def using sessionValidated_needs_action by blast
qed

theorem logoutSuccess_resets_all_fields_witness:
  "sessionValidated (dispatch_all
      (logoutSuccess \<lparr>isAuthenticated = True, sessionValidated = True, loading = True,
                      error = Some ''boom''\<rparr>)
      [LoginStart, LoginSuccess, SessionValidated])
   \<and> SessionValidated \<in> set [LoginStart, LoginSuccess, SessionValidated]
   \<and> logoutSuccess \<lparr>isAuthenticated = True, sessionValidated = True, loading = True,
                    error = Some ''boom''\<rparr> = initialState
   \<and> \<not> sessionValidated (dispatch_all
      (logoutSuccess \<lparr>isAuthenticated = True, sessionValidated = True, loading = True,
                      error = Some ''boom''\<rparr>)
      [LoginStart, LoginSuccess])"
  using logoutSuccess_resets_all_fields
    [of "\<lparr>isAuthenticated = True, sessionValidated = True, loading = True, error = Some ''boom''\<rparr>"]
  by (simp add: dispatch_all_def logoutSuccess_def loginStart_def loginSuccess_def
      sessionValidated_reducer_def initialState_def)

text \<open>
  The shorter slice resets the two flags as well and leaves \<open>loading\<close> and \<open>error\<close>
  as they are; its \<open>loginSuccess\<close> sets \<open>sessionValidated\<close> by itself.
\<close>

lemma logoutSuccess_short_flags:
  "logoutSuccess_short s = s\<lparr>isAuthenticated := False, sessionValidated := False\<rparr>
   \<and> \<not> sessionValidated (logoutSuccess_short s)
   \<and> loading (logoutSuccess_short s) = loading s
   \<and> error (logoutSuccess_short s) = error s
   \<and> sessionValidated (loginSuccess_short (logoutSuccess_short s))"
  by (simp add: logoutSuccess_short_def loginSuccess_short_def)

subsection \<open>The biometric lock\<close>

lemma settle_request_lock:
  "biometricCheckLock (snd (settle_request outcome st)) = biometricCheckLock st"
  by (cases outcome) (simp_all add: settle_request_def responseError_def Let_def split: sum.splits)

lemma settle_request_network:
  "network (snd (settle_request outcome st)) = network st"
  by (cases outcome) (simp_all add: settle_request_def responseError_def Let_def split: sum.splits)

lemma authenticate_resume_lock:
  "biometricCheckLock (snd (authenticate_resume expiry outcome st)) = biometricCheckLock st"
proof -
  obtain r st1 where s: "settle_request outcome st = (r, st1)"
    by (cases "settle_request outcome st")
  have l: "biometricCheckLock st1 = biometricCheckLock st"
    using settle_request_lock [of outcome st] s by simp
  show ?thesis
    using s l by (cases r) (simp_all add: authenticate_resume_def split: prod.splits settled.splits)
qed

lemma authenticate_resume_network:
  "network (snd (authenticate_resume expiry outcome st)) = network st"
proof -
  obtain r st1 where s: "settle_request outcome st = (r, st1)"
    by (cases "settle_request outcome st")
  have l: "network st1 = network st"
    using settle_request_network [of outcome st] s by simp
  show ?thesis
    using s l by (cases r) (simp_all add: authenticate_resume_def split: prod.splits settled.splits)
qed

lemma authenticate_locked:
  "biometricCheckLock st \<Longrightarrow> authenticate expiry request outcome st = (Resolved in_progress_result, st)"
  by (simp add: authenticate_def authenticate_begin_def)

lemma authenticate_begin_lock: "biometricCheckLock (snd (authenticate_begin request st))"
  by (simp add: authenticate_begin_def issue_request_def)

lemma authenticate_sets_lock: "biometricCheckLock (snd (authenticate expiry request outcome st))"
  by (simp add: authenticate_def authenticate_begin_def issue_request_def authenticate_resume_lock)

lemma authenticate_all_locked:
  "biometricCheckLock st \<Longrightarrow>
   authenticate_all expiry calls st = (replicate (length calls) (Resolved in_progress_result), st)"
  by (induction calls) (simp_all add: authenticate_locked)

text \<open>
  C9.  \<open>BiometricService.authenticate\<close> sets \<open>biometricCheckLock\<close> when a call is
  admitted and no path resets it: the lock is set once a call has begun, it stays as it
  is when the call resumes and ends (whatever the request's outcome), and so it is set
  after every call.  Every later call, whether it comes while the first is outstanding or
  after it has ended, returns the \<open>OPERATION_IN_PROGRESS\<close> failure and leaves the
  state, the list of network requests included, as it was.
\<close>

theorem authenticate_lock_never_reset:
  "biometricCheckLock (snd (authenticate_begin request st))
   \<and> biometricCheckLock (snd (authenticate_resume expiry outcome st')) = biometricCheckLock st'
   \<and> biometricCheckLock (snd (authenticate expiry request outcome st))
   \<and> authenticate_all expiry calls (snd (authenticate_begin request st)) =
       (replicate (length calls) (Resolved in_progress_result), snd (authenticate_begin request st))
   \<and> authenticate_all expiry calls (snd (authenticate expiry request outcome st)) =
       (replicate (length calls) (Resolved in_progress_result),
        snd (authenticate expiry request outcome st))"
  using authenticate_begin_lock authenticate_resume_lock authenticate_sets_lock authenticate_all_locked
  by simp

theorem authenticate_lock_never_reset_witness:
  "biometricCheckLock (snd (authenticate day_expiry JNull (Rejected JNull) fresh_app))
   \<and> fst (authenticate_all day_expiry [(JNull, Resolved created_plain), (JNull, Rejected JNull)]
            (snd (authenticate day_expiry JNull (Rejected JNull) fresh_app)))
       = [Resolved in_progress_result, Resolved in_progress_result]
   \<and> network (snd (authenticate_all day_expiry [(JNull, Resolved created_plain), (JNull, Rejected JNull)]
                     (snd (authenticate day_expiry JNull (Rejected JNull) fresh_app))))
       = [(BIOMETRIC_AUTH, JNull)]"
proof -
  note t = authenticate_lock_never_reset
    [where expiry = day_expiry and request = JNull and outcome = "Rejected JNull" and st = fresh_app
       and st' = fresh_app and calls = "[(JNull, Resolved created_plain), (JNull, Rejected JNull)]"]
  have a: "authenticate_all day_expiry [(JNull, Resolved created_plain), (JNull, Rejected JNull)]
             (snd (authenticate day_expiry JNull (Rejected JNull) fresh_app))
           = ([Resolved in_progress_result, Resolved in_progress_result],
              snd (authenticate day_expiry JNull (Rejected JNull) fresh_app))"
    using t by (simp del: authenticate_all.simps)
  have n: "network (snd (authenticate day_expiry JNull (Rejected JNull) fresh_app)) = [(BIOMETRIC_AUTH, JNull)]"
    by code_simp
  show ?thesis
    using t by (simp only: a n fst_conv snd_conv) simp
qed

text \<open>
  C6, as the code has it.  When no \<open>authenticate\<close> call was admitted before, the first of
  two overlapping \<open>BiometricService.authenticate\<close> calls is suspended at its request,
  the second returns the \<open>OPERATION_IN_PROGRESS\<close> failure at once, and exactly one
  request to the biometric endpoint is made, also after the first call has resumed.
  \<open>AuthService.loginWithBiometricFallback\<close> has no guard: two overlapping calls are
  both suspended at a request of their own.
\<close>

theorem authenticate_single_flight:
  assumes "\<not> biometricCheckLock st"
  shows "fst (authenticate_begin r1 st) = Awaiting
    \<and> fst (authenticate_begin r2 (snd (authenticate_begin r1 st))) = Returned in_progress_result
    \<and> network (snd (authenticate_begin r2 (snd (authenticate_begin r1 st))))
        = network st @ [(BIOMETRIC_AUTH, r1)]
    \<and> network (snd (authenticate_resume expiry outcome
                      (snd (authenticate_begin r2 (snd (authenticate_begin r1 st))))))
        = network st @ [(BIOMETRIC_AUTH, r1)]
    \<and> fst (loginWithBiometricFallback_begin i2 (snd (loginWithBiometricFallback_begin i1 st)))
        = Awaiting
    \<and> network (snd (loginWithBiometricFallback_begin i2 (snd (loginWithBiometricFallback_begin i1 st))))
        = network st @ [(BIOMETRIC_AUTH, JObj [(''identifier'', JStr i1)]),
                        (BIOMETRIC_AUTH, JObj [(''identifier'', JStr i2)])]"
  using assms
  by (simp add: authenticate_begin_def issue_request_def authenticate_resume_network
      loginWithBiometricFallback_begin_def)

theorem authenticate_single_flight_witness:
  "\<not> biometricCheckLock fresh_app
   \<and> fst (authenticate_begin (JStr ''second'') (snd (authenticate_begin (JStr ''first'') fresh_app)))
       = Returned in_progress_result
   \<and> network (snd (authenticate_resume day_expiry (Rejected JNull)
        (snd (authenticate_begin (JStr ''second'') (snd (authenticate_begin (JStr ''first'') fresh_app))))))
       = [(BIOMETRIC_AUTH, JStr ''first'')]"
proof -
  have free: "\<not> biometricCheckLock fresh_app"
    by (simp add: fresh_app_def)
  have "network fresh_app = []"
    by (simp add: fresh_app_def)
  then show ?thesis
    using free
      authenticate_single_flight [OF free, of "JStr ''first''" "JStr ''second''" day_expiry "Rejected JNull"]
    by simp
qed

text \<open>
  Two overlapping \<open>loginWithBiometricFallback\<close> calls on a fresh application: the
  second is not turned away, and two requests go to the biometric endpoint.
\<close>

theorem loginWithBiometricFallback_no_single_flight:
  "fst (loginWithBiometricFallback_begin ''a@b.com''
          (snd (loginWithBiometricFallback_begin ''a@b.com'' fresh_app))) = Awaiting
   \<and> network (snd (loginWithBiometricFallback_begin ''a@b.com''
                     (snd (loginWithBiometricFallback_begin ''a@b.com'' fresh_app))))
       = [(BIOMETRIC_AUTH, JObj [(''identifier'', JStr ''a@b.com'')]),
          (BIOMETRIC_AUTH, JObj [(''identifier'', JStr ''a@b.com'')])]"
  by (simp add: loginWithBiometricFallback_begin_def issue_request_def fresh_app_def)

subsection \<open>Token extraction\<close>

text \<open>
  C7, as the code has it.  In both versions of the token utilities: for every response
  whose body has a truthy \<open>accessToken\<close> (a non-empty string, for one), token
  extraction returns exactly that value, whatever the headers and the \<open>token\<close> and
  \<open>authToken\<close> fields hold.  A falsy \<open>accessToken\<close> is skipped: the result is then
  what the remaining sources of the chain give.
\<close>

theorem extractToken_truthy_accessToken:
  "(truthy (opt_prop (data r) ''accessToken'') \<longrightarrow>
      extractTokenFromResponse utils r = opt_prop (data r) ''accessToken'')
   \<and> (\<not> truthy (opt_prop (data r) ''accessToken'') \<longrightarrow>
      possibleToken r =
        js_or (js_or (js_or (opt_prop (data r) ''token'') (header (headers r) ''x-auth-token''))
                     (bearerHeader (headers r)))
              (opt_prop (data r) ''authToken'')
      \<and> extractTokenFromResponse Version1 r =
        js_or (js_or (opt_prop (data r) ''token'') (header (headers r) ''x-auth-token''))
              (case map_of (headers r) ''authorization'' of
                 None \<Rightarrow> JUndefined
               | Some a \<Rightarrow> JStr (replace_first a ''Bearer '' [])))"
  by (cases utils)
     (simp_all add: extractTokenFromResponse_1_def extractTokenFromResponse_2_def possibleToken_def
        js_or_def Let_def)

theorem extractToken_truthy_accessToken_witness:
  "truthy (opt_prop (data body_and_header_token) ''accessToken'')
   \<and> opt_prop (data body_and_header_token) ''accessToken'' = JStr ''from-body''
   \<and> extractTokenFromResponse Version1 body_and_header_token = JStr ''from-body''
   \<and> extractTokenFromResponse Version2 body_and_header_token = JStr ''from-body''"
proof -
  have a: "opt_prop (data body_and_header_token) ''accessToken'' = JStr ''from-body''"
    by (simp add: body_and_header_token_def opt_prop_def)
  then have t: "truthy (opt_prop (data body_and_header_token) ''accessToken'')"
    by simp
  show ?thesis
    using a t
      extractToken_truthy_accessToken [where r = body_and_header_token and utils = Version1]
      extractToken_truthy_accessToken [where r = body_and_header_token and utils = Version2]
    by simp
qed

text \<open>
  A body whose \<open>accessToken\<close> field is the empty string: the field is there, and in
  both versions the token of the \<open>x-auth-token\<close> header is returned in its place.
\<close>

theorem extractToken_empty_accessToken:
  "opt_prop (data empty_accessToken) ''accessToken'' = JStr []
   \<and> extractTokenFromResponse Version1 empty_accessToken = JStr ''from-header''
   \<and> extractTokenFromResponse Version2 empty_accessToken = JStr ''from-header''"
  by code_simp

subsection \<open>The implicit session\<close>

lemma serializable_headers_object: "serializable (headers_object hs)"
  by (induction hs) (simp_all add: headers_object_def)

lemma extract_implicit:
  "status r = 201 \<Longrightarrow> \<not> truthy (possibleToken r) \<Longrightarrow> \<not> hasCookies (headers r) \<Longrightarrow>
   extractTokenFromResponse Version2 r = JStr ''implicit-session-auth''"
  by (simp add: extractTokenFromResponse_2_def Let_def)

text \<open>
  What the second version stores for the sentinel: the sentinel itself under the
  access-token key, beside the refresh token and the expiration, and no session marker.
\<close>

lemma storeAuthTokens_2_sentinel:
  "js_or (opt_prop d ''refreshToken'') (JStr ''session-auth'') = JStr rt \<Longrightarrow>
   storeAuthTokens Version2 expiry (response_tokens (JStr ''implicit-session-auth'') d) store =
     (Resolved (),
      store(AUTH_TOKEN \<mapsto> ''implicit-session-auth'', REFRESH_TOKEN \<mapsto> rt,
            TOKEN_EXPIRATION \<mapsto> expiry (js_or (opt_prop d ''expiresIn'') (JNum 86400))))"
  by (simp add: storeAuthTokens_2_def response_tokens_def write_all_def setItemAsync_def)

text \<open>
  What the first version would store for the sentinel, which its own extraction never
  produces: the session marker alone.
\<close>

lemma storeAuthTokens_1_sentinel:
  "storeAuthTokens Version1 expiry (response_tokens (JStr ''implicit-session-auth'') d) store =
     (Resolved (), store(SESSION_COOKIE \<mapsto> ''session-established''))"
  by (simp add: storeAuthTokens_1_def response_tokens_def setItemAsync_def)

text \<open>The \<open>try\<close> block of \<open>login\<close> on a response that passes its checks of the body.\<close>

lemma login_try_passed:
  assumes "\<not> is_nullish (data r)" "serializable (data r)"
    and "truthy (get_prop (data r) ''success'') \<or> \<not> truthy (get_prop (data r) ''error'')"
    and "\<not> str_includes (toLowerCase (json_text (headers_object (headers r)))) ''no user found''"
    and "\<not> str_includes (toLowerCase (json_text (js_or (data r) (JObj [])))) ''no user found''"
    and "200 \<le> status r" "status r < 300"
  shows "login_try utils expiry r st =
     (let token = extractTokenFromResponse utils r in
      if truthy token then
        (case storeAuthTokens utils expiry (response_tokens token (data r)) (secureStore st) of
           (Rejected ex, store') \<Rightarrow> (Rejected ex, st\<lparr>secureStore := store'\<rparr>)
         | (Resolved u, store') \<Rightarrow> (Resolved (ok_response r), st\<lparr>secureStore := store'\<rparr>))
      else
        (Resolved (failure_status
           (error_object (JStr ''AUTH_TOKEN_MISSING'')
              (JStr ''Authentication failed. Please check your email and password.''))
           (status r)), st))"
proof -
  have h: "stringify_lower (headers_object (headers r))
             = Inr (toLowerCase (json_text (headers_object (headers r))))"
  proof -
    have "headers_object (headers r) \<noteq> JUndefined"
      by (simp add: headers_object_def)
    then show ?thesis
      by (simp add: stringify_lower_cases serializable_headers_object)
  qed
  have "serializable (js_or (data r) (JObj []))" "js_or (data r) (JObj []) \<noteq> JUndefined"
    using assms(2) by (auto simp: js_or_def)
  then have d: "stringify_lower (js_or (data r) (JObj []))
                  = Inr (toLowerCase (json_text (js_or (data r) (JObj []))))"
    by (simp add: stringify_lower_cases)
  show ?thesis
    using assms(1,3,4,5,6,7)
    by (auto simp add: login_try_def Let_def h d)
qed

lemma login_resolved_unfold:
  "login utils expiry credentials (Resolved r) st =
     (case login_try utils expiry r
             (issue_request LOGIN
                (JObj [(''identifier'', JStr (user_identifier credentials)),
                       (''password'', JStr (password credentials))]) st) of
        (Rejected err, st2) \<Rightarrow> (login_catch err, st2)
      | (Resolved x, st2) \<Rightarrow> (Resolved x, st2))"
  by (simp add: login_def apiClient_resolved)

text \<open>
  The state after such a login with the second version: the sentinel is stored as if it
  were a token, and the session key is left as it was.
\<close>

lemma login_implicit_store:
  assumes "status r = 201" "\<not> truthy (possibleToken r)" "\<not> hasCookies (headers r)"
    and "\<not> is_nullish (data r)" "serializable (data r)"
    and "truthy (get_prop (data r) ''success'') \<or> \<not> truthy (get_prop (data r) ''error'')"
    and "\<not> str_includes (toLowerCase (json_text (headers_object (headers r)))) ''no user found''"
    and "\<not> str_includes (toLowerCase (json_text (js_or (data r) (JObj [])))) ''no user found''"
    and "js_or (opt_prop (data r) ''refreshToken'') (JStr ''session-auth'') = JStr rt"
  shows "secureStore (snd (login Version2 expiry credentials (Resolved r) st)) =
     (secureStore st)(AUTH_TOKEN \<mapsto> ''implicit-session-auth'', REFRESH_TOKEN \<mapsto> rt,
        TOKEN_EXPIRATION \<mapsto> expiry (js_or (opt_prop (data r) ''expiresIn'') (JNum 86400)))"
    and "fst (login Version2 expiry credentials (Resolved r) st) = Resolved (ok_response r)"
proof -
  have t: "extractTokenFromResponse Version2 r = JStr ''implicit-session-auth''"
    using assms(1-3) by (rule extract_implicit)
  have s: "200 \<le> status r" "status r < 300"
    using assms(1) by simp_all
  define st1 where "st1 = issue_request LOGIN
                (JObj [(''identifier'', JStr (user_identifier credentials)),
                       (''password'', JStr (password credentials))]) st"
  have "login_try Version2 expiry r st1 =
     (case storeAuthTokens Version2 expiry
             (response_tokens (JStr ''implicit-session-auth'') (data r)) (secureStore st1) of
        (Rejected ex, store') \<Rightarrow> (Rejected ex, st1\<lparr>secureStore := store'\<rparr>)
      | (Resolved u, store') \<Rightarrow> (Resolved (ok_response r), st1\<lparr>secureStore := store'\<rparr>))"
    using login_try_passed [OF assms(4-8) s, of Version2 expiry st1]
    by (simp only: t Let_def truthy.simps) simp
  then have l: "login_try Version2 expiry r st1 =
     (Resolved (ok_response r),
      st1\<lparr>secureStore := (secureStore st1)(AUTH_TOKEN \<mapsto> ''implicit-session-auth'',
         REFRESH_TOKEN \<mapsto> rt,
         TOKEN_EXPIRATION \<mapsto> expiry (js_or (opt_prop (data r) ''expiresIn'') (JNum 86400)))\<rparr>)"
    by (simp only: storeAuthTokens_2_sentinel [OF assms(9)]) simp
  have u: "login Version2 expiry credentials (Resolved r) st =
     (case login_try Version2 expiry r st1 of
        (Rejected err, st2) \<Rightarrow> (login_catch err, st2)
      | (Resolved x, st2) \<Rightarrow> (Resolved x, st2))"
    by (simp only: login_resolved_unfold st1_def)
  have k: "secureStore st1 = secureStore st"
    by (simp add: st1_def issue_request_def)
  show "secureStore (snd (login Version2 expiry credentials (Resolved r) st)) =
     (secureStore st)(AUTH_TOKEN \<mapsto> ''implicit-session-auth'', REFRESH_TOKEN \<mapsto> rt,
        TOKEN_EXPIRATION \<mapsto> expiry (js_or (opt_prop (data r) ''expiresIn'') (JNum 86400)))"
    by (simp add: u l k)
  show "fst (login Version2 expiry credentials (Resolved r) st) = Resolved (ok_response r)"
    by (simp add: u l)
qed

text \<open>
  C8, as the code has it.  Take a login response with status exactly 201, no token in
  the body or the headers and no cookie header.  The layered token extraction (the
  second version of the token utilities) returns the implicit-session sentinel.  When
  moreover the body is not \<open>null\<close> or \<open>undefined\<close>, can be serialized, does not
  report an error (a truthy \<open>error\<close> beside a falsy \<open>success\<close>), carries no refresh
  token or a string as refresh token, and neither the headers nor the body contain the
  text \<open>no user found\<close> in any letter case, \<open>login\<close> with that version reports
  success.  With the first version, whose extraction has no fallback, a response that
  passes the same checks of the body and from which nothing is extracted makes
  \<open>login\<close> report the failure \<open>AUTH_TOKEN_MISSING\<close>.
\<close>

theorem login_implicit_session:
  assumes "status r = 201" "\<not> truthy (possibleToken r)" "\<not> hasCookies (headers r)"
  shows "extractTokenFromResponse Version2 r = JStr ''implicit-session-auth''
    \<and> (\<not> is_nullish (data r) \<and> serializable (data r)
       \<and> (truthy (get_prop (data r) ''success'') \<or> \<not> truthy (get_prop (data r) ''error''))
       \<and> (\<exists>rt. js_or (opt_prop (data r) ''refreshToken'') (JStr ''session-auth'') = JStr rt)
       \<and> \<not> str_includes (toLowerCase (json_text (headers_object (headers r)))) ''no user found''
       \<and> \<not> str_includes (toLowerCase (json_text (js_or (data r) (JObj [])))) ''no user found''
       \<longrightarrow> fst (login Version2 expiry credentials (Resolved r) st) = Resolved (ok_response r)
         \<and> success (ok_response r))
    \<and> (\<not> is_nullish (data r) \<and> serializable (data r)
       \<and> (truthy (get_prop (data r) ''success'') \<or> \<not> truthy (get_prop (data r) ''error''))
       \<and> \<not> truthy (extractTokenFromResponse Version1 r)
       \<and> \<not> str_includes (toLowerCase (json_text (headers_object (headers r)))) ''no user found''
       \<and> \<not> str_includes (toLowerCase (json_text (js_or (data r) (JObj [])))) ''no user found''
       \<longrightarrow> fst (login Version1 expiry credentials (Resolved r) st) =
             Resolved (failure_status
               (error_object (JStr ''AUTH_TOKEN_MISSING'')
                  (JStr ''Authentication failed. Please check your email and password.''))
               201))"
proof (intro conjI impI)
  show "extractTokenFromResponse Version2 r = JStr ''implicit-session-auth''"
    using assms by (rule extract_implicit)
next
  assume a: "\<not> is_nullish (data r) \<and> serializable (data r)
       \<and> (truthy (get_prop (data r) ''success'') \<or> \<not> truthy (get_prop (data r) ''error''))
       \<and> (\<exists>rt. js_or (opt_prop (data r) ''refreshToken'') (JStr ''session-auth'') = JStr rt)
       \<and> \<not> str_includes (toLowerCase (json_text (headers_object (headers r)))) ''no user found''
       \<and> \<not> str_includes (toLowerCase (json_text (js_or (data r) (JObj [])))) ''no user found''"
  then obtain rt where rt: "js_or (opt_prop (data r) ''refreshToken'') (JStr ''session-auth'') = JStr rt"
    by blast
  show "fst (login Version2 expiry credentials (Resolved r) st) = Resolved (ok_response r)"
    using login_implicit_store(2) [OF assms _ _ _ _ _ rt] a by blast
  show "success (ok_response r)"
    by (simp add: ok_response_def)
next
  assume a: "\<not> is_nullish (data r) \<and> serializable (data r)
       \<and> (truthy (get_prop (data r) ''success'') \<or> \<not> truthy (get_prop (data r) ''error''))
       \<and> \<not> truthy (extractTokenFromResponse Version1 r)
       \<and> \<not> str_includes (toLowerCase (json_text (headers_object (headers r)))) ''no user found''
       \<and> \<not> str_includes (toLowerCase (json_text (js_or (data r) (JObj [])))) ''no user found''"
  have s: "200 \<le> status r" "status r < 300"
    using assms(1) by simp_all
  have "login_try Version1 expiry r
             (issue_request LOGIN
                (JObj [(''identifier'', JStr (user_identifier credentials)),
                       (''password'', JStr (password credentials))]) st) =
        (Resolved (failure_status
           (error_object (JStr ''AUTH_TOKEN_MISSING'')
              (JStr ''Authentication failed. Please check your email and password.''))
           (status r)),
         issue_request LOGIN
                (JObj [(''identifier'', JStr (user_identifier credentials)),
                       (''password'', JStr (password credentials))]) st)"
    using login_try_passed [OF _ _ _ _ _ s, where utils = Version1 and expiry = expiry] a
    by (simp add: Let_def del: extractTokenFromResponse.simps)
  then show "fst (login Version1 expiry credentials (Resolved r) st) =
             Resolved (failure_status
               (error_object (JStr ''AUTH_TOKEN_MISSING'')
                  (JStr ''Authentication failed. Please check your email and password.''))
               201)"
    using assms(1) by (simp add: login_resolved_unfold)
qed

theorem login_implicit_session_witness:
  "status created_plain = 201
   \<and> \<not> truthy (possibleToken created_plain)
   \<and> \<not> hasCookies (headers created_plain)
   \<and> \<not> is_nullish (data created_plain)
   \<and> serializable (data created_plain)
   \<and> \<not> truthy (get_prop (data created_plain) ''error'')
   \<and> js_or (opt_prop (data created_plain) ''refreshToken'') (JStr ''session-auth'')
       = JStr ''session-auth''
   \<and> \<not> truthy (extractTokenFromResponse Version1 created_plain)
   \<and> extractTokenFromResponse Version2 created_plain = JStr ''implicit-session-auth''
   \<and> fst (login Version2 day_expiry a_b_com (Resolved created_plain) fresh_app)
       = Resolved (ok_response created_plain)
   \<and> success (ok_response created_plain)
   \<and> fst (login Version1 day_expiry a_b_com (Resolved created_plain) fresh_app)
       = Resolved (failure_status
               (error_object (JStr ''AUTH_TOKEN_MISSING'')
                  (JStr ''Authentication failed. Please check your email and password.''))
               201)"
proof -
  have h1: "status created_plain = 201"
    by (simp add: created_plain_def)
  have h2: "\<not> truthy (possibleToken created_plain)"
    by code_simp
  have h3: "\<not> hasCookies (headers created_plain)"
    by (simp add: created_plain_def hasCookies_def)
  have h4: "\<not> is_nullish (data created_plain)" "serializable (data created_plain)"
    "\<not> truthy (get_prop (data created_plain) ''error'')"
    by (simp_all add: created_plain_def)
  have h5: "\<not> str_includes (toLowerCase (json_text (headers_object (headers created_plain))))
               ''no user found''"
    by code_simp
  have h6: "\<not> str_includes (toLowerCase (json_text (js_or (data created_plain) (JObj []))))
               ''no user found''"
    by code_simp
  have h7: "js_or (opt_prop (data created_plain) ''refreshToken'') (JStr ''session-auth'')
              = JStr ''session-auth''"
    by code_simp
  have h8: "\<not> truthy (extractTokenFromResponse Version1 created_plain)"
    by code_simp
  note t = login_implicit_session
    [OF h1 h2 h3, where expiry = day_expiry and credentials = a_b_com and st = fresh_app]
  have a: "extractTokenFromResponse Version2 created_plain = JStr ''implicit-session-auth''"
    using t by blast
  have b: "fst (login Version2 day_expiry a_b_com (Resolved created_plain) fresh_app)
       = Resolved (ok_response created_plain)" "success (ok_response created_plain)"
    using t h4 h5 h6 h7 by blast+
  have c: "fst (login Version1 day_expiry a_b_com (Resolved created_plain) fresh_app)
       = Resolved (failure_status
               (error_object (JStr ''AUTH_TOKEN_MISSING'')
                  (JStr ''Authentication failed. Please check your email and password.''))
               201)"
    using t h4 h5 h6 h8 by blast
  show ?thesis
    by (intro conjI) (fact h1 h2 h3 h4 h7 h8 a b c)+
qed

text \<open>
  A login answered with status 201, no token and no cookie header, whose body carries
  the backend's \<open>No user found\<close> text: the layered extraction gives the sentinel, yet
  \<open>login\<close> reports the failure \<open>USER_NOT_FOUND\<close> and nothing is stored, with either
  version of the token utilities.
\<close>

theorem login_created_no_user_fails:
  "status created_no_user = 201
   \<and> \<not> truthy (possibleToken created_no_user)
   \<and> \<not> hasCookies (headers created_no_user)
   \<and> extractTokenFromResponse Version2 created_no_user = JStr ''implicit-session-auth''
   \<and> fst (login Version2 day_expiry a_b_com (Resolved created_no_user) fresh_app)
       = Resolved (failure_status USER_NOT_FOUND_error 201)
   \<and> fst (login Version1 day_expiry a_b_com (Resolved created_no_user) fresh_app)
       = Resolved (failure_status USER_NOT_FOUND_error 201)
   \<and> \<not> success (failure_status USER_NOT_FOUND_error 201)
   \<and> secureStore (snd (login Version2 day_expiry a_b_com (Resolved created_no_user) fresh_app))
        SESSION_COOKIE = None
   \<and> secureStore (snd (login Version2 day_expiry a_b_com (Resolved created_no_user) fresh_app))
        AUTH_TOKEN = None"
  by code_simp

subsection \<open>The request interceptor\<close>

lemma getAuthToken_nonempty: "getAuthToken now store = Some t \<Longrightarrow> t \<noteq> []"
  by (auto simp: getAuthToken_def split: option.splits if_splits)

lemma getAuthToken_from_store:
  "getAuthToken now store = Some t \<Longrightarrow> store AUTH_TOKEN = Some t"
  by (auto simp: getAuthToken_def getItemAsync_def split: option.splits if_splits)

lemma parseInt_nonempty: "parseInt s = Some e \<Longrightarrow> s \<noteq> []"
  by (auto simp: parseInt_def Let_def)

lemma getAuthToken_valid:
  "store AUTH_TOKEN = Some t \<Longrightarrow> t \<noteq> [] \<Longrightarrow> store TOKEN_EXPIRATION = Some s \<Longrightarrow>
   parseInt s = Some e \<Longrightarrow> now < e \<Longrightarrow> getAuthToken now store = Some t"
  using parseInt_nonempty [of s e]
  by (simp add: getAuthToken_def getItemAsync_def)

lemma getAuthToken_expired:
  "store TOKEN_EXPIRATION = Some s \<Longrightarrow> parseInt s = Some e \<Longrightarrow> e \<le> now \<Longrightarrow>
   getAuthToken now store = None"
  by (simp add: getAuthToken_def getItemAsync_def split: option.splits)

text \<open>
  C5, as the code has it.  A request whose URL contains the path of one of the six
  authentication endpoints is an authentication request, and its headers are left as
  they are.  For any other request the interceptor asks \<open>getAuthToken\<close>: when the
  store holds no access token or no expiration (or the token has expired) there is no
  token and the headers are left as they are; when there is a token, it is the stored
  access token, and unless it is one of the session sentinels the header
  \<open>Authorization: Bearer <token>\<close> is set.  There is a token exactly in the case of
  a non-empty stored access token whose stored expiration lies in the future.
\<close>

theorem requestInterceptor_bearer:
  "(isAuthEndpoint (url c) authEndpoints \<longrightarrow>
      config_headers (requestInterceptor now store c) = config_headers c)
   \<and> (\<not> isAuthEndpoint (url c) authEndpoints \<and> getAuthToken now store = None \<longrightarrow>
      config_headers (requestInterceptor now store c) = config_headers c)
   \<and> (\<not> isAuthEndpoint (url c) authEndpoints \<and> getAuthToken now store = Some t
       \<and> t \<notin> {''session-based-auth'', ''implicit-session-auth'', ''cookie-based-auth''} \<longrightarrow>
      store AUTH_TOKEN = Some t
      \<and> config_headers (requestInterceptor now store c)
          = (config_headers c)(''Authorization'' \<mapsto> ''Bearer '' @ t))
   \<and> (url c = Some u \<and> list_ex (str_includes u) authEndpoints \<longrightarrow> isAuthEndpoint (url c) authEndpoints)
   \<and> (store AUTH_TOKEN = None \<or> store TOKEN_EXPIRATION = None \<longrightarrow> getAuthToken now store = None)
   \<and> (store TOKEN_EXPIRATION = Some s \<and> parseInt s = Some e \<and> e \<le> now \<longrightarrow>
      getAuthToken now store = None)
   \<and> (store AUTH_TOKEN = Some t \<and> t \<noteq> [] \<and> store TOKEN_EXPIRATION = Some s
       \<and> parseInt s = Some e \<and> now < e \<longrightarrow> getAuthToken now store = Some t)"
proof (intro conjI impI)
  assume "isAuthEndpoint (url c) authEndpoints"
  then show "config_headers (requestInterceptor now store c) = config_headers c"
    by (simp add: requestInterceptor_def Let_def)
next
  assume "\<not> isAuthEndpoint (url c) authEndpoints \<and> getAuthToken now store = None"
  then show "config_headers (requestInterceptor now store c) = config_headers c"
    by (simp add: requestInterceptor_def Let_def)
next
  assume a: "\<not> isAuthEndpoint (url c) authEndpoints \<and> getAuthToken now store = Some t
       \<and> t \<notin> {''session-based-auth'', ''implicit-session-auth'', ''cookie-based-auth''}"
  then show "store AUTH_TOKEN = Some t"
    using getAuthToken_from_store by blast
  have "t \<noteq> []"
    using a getAuthToken_nonempty by blast
  then show "config_headers (requestInterceptor now store c)
          = (config_headers c)(''Authorization'' \<mapsto> ''Bearer '' @ t)"
    using a by (simp add: requestInterceptor_def Let_def)
next
  assume "url c = Some u \<and> list_ex (str_includes u) authEndpoints"
  then have i: "url c = Some u" "list_ex (str_includes u) authEndpoints"
    by simp_all
  have "\<not> list_ex (str_includes []) authEndpoints"
    by code_simp
  with i(2) have "u \<noteq> []"
    by auto
  with i show "isAuthEndpoint (url c) authEndpoints"
    by (simp add: isAuthEndpoint_def)
next
  assume "store AUTH_TOKEN = None \<or> store TOKEN_EXPIRATION = None"
  then show "getAuthToken now store = None"
    by (auto simp: getAuthToken_def getItemAsync_def split: option.splits)
next
  assume "store TOKEN_EXPIRATION = Some s \<and> parseInt s = Some e \<and> e \<le> now"
  then show "getAuthToken now store = None"
    using getAuthToken_expired by blast
next
  assume "store AUTH_TOKEN = Some t \<and> t \<noteq> [] \<and> store TOKEN_EXPIRATION = Some s
       \<and> parseInt s = Some e \<and> now < e"
  then show "getAuthToken now store = Some t"
    using getAuthToken_valid by blast
qed

theorem requestInterceptor_bearer_witness:
  "\<not> isAuthEndpoint (url profile_request) authEndpoints
   \<and> getAuthToken 1000 signed_in_store = Some ''tok''
   \<and> config_headers (requestInterceptor 1000 signed_in_store profile_request) ''Authorization''
       = Some ''Bearer tok''
   \<and> isAuthEndpoint (url (profile_request\<lparr>url := Some LOGIN\<rparr>)) authEndpoints
   \<and> config_headers (requestInterceptor 1000 signed_in_store (profile_request\<lparr>url := Some LOGIN\<rparr>))
        ''Authorization'' = None
   \<and> getAuthToken 9000 signed_in_store = None
   \<and> config_headers (requestInterceptor 9000 signed_in_store profile_request) ''Authorization'' = None"
proof -
  have h1: "\<not> isAuthEndpoint (url profile_request) authEndpoints"
    by code_simp
  have h2: "getAuthToken 1000 signed_in_store = Some ''tok''"
    by code_simp
  have h3: "isAuthEndpoint (url (profile_request\<lparr>url := Some LOGIN\<rparr>)) authEndpoints"
    by code_simp
  have h4: "getAuthToken 9000 signed_in_store = None"
    by code_simp
  have e: "config_headers profile_request = Map.empty"
    by (simp add: profile_request_def)
  have n: "''tok'' \<notin> {''session-based-auth'', ''implicit-session-auth'', ''cookie-based-auth''}"
    by simp
  have a: "config_headers (requestInterceptor 1000 signed_in_store profile_request)
             = (config_headers profile_request)(''Authorization'' \<mapsto> ''Bearer '' @ ''tok'')"
    using requestInterceptor_bearer
      [where c = profile_request and now = 1000 and store = signed_in_store and t = "''tok''"] h1 h2 n
    by blast
  have b: "config_headers (requestInterceptor 1000 signed_in_store (profile_request\<lparr>url := Some LOGIN\<rparr>))
             = config_headers (profile_request\<lparr>url := Some LOGIN\<rparr>)"
    using requestInterceptor_bearer
      [where c = "profile_request\<lparr>url := Some LOGIN\<rparr>" and now = 1000
         and store = signed_in_store] h3
    by blast
  have c: "config_headers (requestInterceptor 9000 signed_in_store profile_request)
             = config_headers profile_request"
    using requestInterceptor_bearer
      [where c = profile_request and now = 9000 and store = signed_in_store] h1 h4
    by blast
  show ?thesis
    using h1 h2 h3 h4 by (simp add: a b c e)
qed

text \<open>
  A request for the user profile, which is no authentication endpoint, while nothing is
  stored: the interceptor adds no \<open>Authorization\<close> header.
\<close>

theorem requestInterceptor_no_token_no_header:
  "\<not> isAuthEndpoint (url profile_request) authEndpoints
   \<and> config_headers (requestInterceptor 1000 (secureStore fresh_app) profile_request) ''Authorization''
       = None"
  by code_simp

subsection \<open>Error normalization\<close>

lemma startsWith_append: "startsWith (p @ s) p"
  by (induction p) simp_all

lemma status_code_known:
  "status_code st d \<in> set formatError_codes \<or> startsWith (status_code st d) ''SERVER_ERROR_''"
proof (cases "status_code st d = ''SERVER_ERROR_'' @ js_to_string st")
  case True
  then show ?thesis
    using startsWith_append [of "''SERVER_ERROR_''" "js_to_string st"] by simp
next
  case False
  then show ?thesis
    by (simp add: status_code_def formatError_codes_def split: if_splits)
qed

lemma status_default_message_nonempty: "status_default_message st \<noteq> []"
  by (simp add: status_default_message_def)

lemma normalized_response_error: "normalized_error (response_error r)"
  using status_code_known [of "get_prop r ''status''" "get_prop r ''data''"]
  by (simp add: normalized_error_def response_error_def Let_def js_or_def
      status_default_message_nonempty)

lemma null_text: "\<not> no_user_found_text (toLowerCase (json_text JNull))"
  by (simp add: no_user_found_text_def toLowerCase_def lower_char_def)

text \<open>
  C3, as the code has it.  For every input that \<open>JSON.stringify\<close> can serialize and
  that is neither \<open>null\<close> nor \<open>undefined\<close>, \<open>formatError\<close> returns one normalized
  error: its code is one of \<open>USER_NOT_FOUND\<close>, \<open>BAD_REQUEST\<close>, \<open>TOKEN_EXPIRED\<close>,
  \<open>UNAUTHORIZED\<close>, \<open>FORBIDDEN\<close>, \<open>NOT_FOUND\<close>, \<open>CONFLICT\<close>,
  \<open>TOO_MANY_REQUESTS\<close>, \<open>SERVER_ERROR\<close>, \<open>NETWORK_ERROR\<close>,
  \<open>REQUEST_SETUP_ERROR\<close> or \<open>SERVER_ERROR_<status>\<close>, and its message is not
  empty.  For every other input (one whose serialization throws, such as a
  self-referential structure, and \<open>null\<close> and \<open>undefined\<close>) \<open>formatError\<close> throws a
  \<open>TypeError\<close>.
\<close>

theorem formatError_total_on_serializable:
  "(if serializable e \<and> \<not> is_nullish e
    then (case formatError e of Inl ex \<Rightarrow> False | Inr apiError \<Rightarrow> normalized_error apiError)
    else formatError e = Inl type_error)"
proof (cases "serializable e \<and> \<not> is_nullish e")
  case True
  then have nz: "e \<noteq> JUndefined" by auto
  have u: "normalized_error USER_NOT_FOUND_error"
    by (simp add: USER_NOT_FOUND_error_def normalized_error_def formatError_codes_def)
  have n: "normalized_error (JObj [(''code'', JStr ''NETWORK_ERROR''),
                       (''message'', JStr ''No response received from server''),
                       (''isNetworkError'', JBool True),
                       (''details'', get_prop e ''request'')])"
    by (simp add: normalized_error_def formatError_codes_def)
  have r: "normalized_error (JObj [(''code'', JStr ''REQUEST_SETUP_ERROR''),
             (''message'', js_or (get_prop e ''message'') (JStr ''Error setting up request''))])"
    by (simp add: normalized_error_def formatError_codes_def js_or_def)
  show ?thesis
    using True nz normalized_response_error u n r
    by (simp add: formatError_def stringify_lower_cases)
next
  case False
  then consider "\<not> serializable e" | "e = JUndefined" | "e = JNull"
    by (cases e) auto
  then show ?thesis
  proof cases
    case 1
    then show ?thesis by (simp add: formatError_def stringify_lower_cases)
  next
    case 2
    then show ?thesis by (simp add: formatError_def stringify_lower_cases)
  next
    case 3
    then show ?thesis using null_text by (simp add: formatError_def stringify_lower_cases)
  qed
qed

theorem formatError_total_on_serializable_witness:
  "serializable network_failure \<and> \<not> is_nullish network_failure
   \<and> formatError network_failure =
       Inr (JObj [(''code'', JStr ''NETWORK_ERROR''),
                  (''message'', JStr ''No response received from server''),
                  (''isNetworkError'', JBool True),
                  (''details'', JObj [])])
   \<and> normalized_error (JObj [(''code'', JStr ''NETWORK_ERROR''),
                  (''message'', JStr ''No response received from server''),
                  (''isNetworkError'', JBool True),
                  (''details'', JObj [])])
   \<and> formatError JUndefined = Inl type_error"
proof -
  have f: "formatError network_failure =
       Inr (JObj [(''code'', JStr ''NETWORK_ERROR''),
                  (''message'', JStr ''No response received from server''),
                  (''isNetworkError'', JBool True),
                  (''details'', JObj [])])"
    by code_simp
  have s: "serializable network_failure \<and> \<not> is_nullish network_failure"
    by (simp add: network_failure_def)
  show ?thesis
    using f s formatError_total_on_serializable [of network_failure]
      formatError_total_on_serializable [of JUndefined]
    by simp
qed

text \<open>
  The object \<open>e\<close> of \<open>const e = {name: 'loop'}; e.self = e\<close>: \<open>JSON.stringify\<close>
  throws on the reference back to \<open>e\<close>, and so does \<open>formatError\<close>.
\<close>

theorem formatError_throws_on_cycle:
  "formatError (JHost None [(''name'', JStr ''loop'')]) = Inl type_error"
  by (simp add: formatError_def stringify_lower_cases)

subsection \<open>The login of the scenario\<close>

text \<open>
  C4.  \<open>login({identifier: "a@b.com", password: "short"})\<close> against a backend that
  answers status 400 with the body \<open>{message: "Invalid request"}\<close>.  The response
  interceptor formats the error as \<open>BAD_REQUEST\<close> with the backend's message; the
  formatted error has no \<open>response\<close> property, so the \<open>catch\<close> clause of \<open>login\<close>
  finds no error response and returns the \<open>NETWORK_ERROR\<close> failure.
\<close>

theorem login_bad_request_reports_network_error:
  "formatError bad_request_error =
     Inr (JObj [(''code'', JStr ''BAD_REQUEST''), (''message'', JStr ''Invalid request''),
                (''details'', JObj [(''message'', JStr ''Invalid request'')])])
   \<and> fst (login utils expiry a_b_com (Rejected bad_request_error) fresh_app) =
       Resolved (failure (error_object (JStr ''NETWORK_ERROR'')
         (JStr ''Network connection error. Please check your internet connection.'')))
   \<and> network (snd (login utils expiry a_b_com (Rejected bad_request_error) fresh_app))
       = [(LOGIN, login_body)]"
proof -
  have f: "formatError bad_request_error =
     Inr (JObj [(''code'', JStr ''BAD_REQUEST''), (''message'', JStr ''Invalid request''),
                (''details'', JObj [(''message'', JStr ''Invalid request'')])])"
    by code_simp
  have c: "login_catch (delivered bad_request_error) =
       Resolved (failure (error_object (JStr ''NETWORK_ERROR'')
         (JStr ''Network connection error. Please check your internet connection.'')))"
    by code_simp
  have l: "login utils expiry a_b_com (Rejected bad_request_error) fresh_app =
       (login_catch (delivered bad_request_error), issue_request LOGIN login_body fresh_app)"
    by (simp add: login_def apiClient_rejected a_b_com_def login_body_def)
  have n: "network (issue_request LOGIN login_body fresh_app) = [(LOGIN, login_body)]"
    by (simp add: issue_request_def fresh_app_def)
  show ?thesis
    by (simp add: f l c n)
qed

subsection \<open>logout\<close>

lemma logout_state:
  "secureStore (snd (logout outcome st)) = (secureStore st)(AUTH_TOKEN := None, REFRESH_TOKEN := None)
   \<and> authState (snd (logout outcome st)) = logoutSuccess (authState st)"
  by (cases outcome)
     (simp_all add: logout_def apiClient_request_def settle_request_def issue_request_def
        responseError_def logout_finally_def deleteItemAsync_def Let_def split: sum.splits)

text \<open>
  C1.  \<open>logout()\<close> on an application that holds all four stored secrets, with a logout
  request that gets no response.  The access token and the refresh token are deleted and
  the auth state is logged out, but the expiration timestamp and the session marker
  are still in the store, and \<open>validateSession\<close> then reports an authenticated
  session without asking the backend.
\<close>

theorem logout_leaves_expiration_and_session:
  "secureStore signed_in_app TOKEN_EXPIRATION = Some ''5000''
   \<and> secureStore signed_in_app SESSION_COOKIE = Some ''session-established''
   \<and> secureStore (snd (logout (Rejected network_failure) signed_in_app)) AUTH_TOKEN = None
   \<and> secureStore (snd (logout (Rejected network_failure) signed_in_app)) REFRESH_TOKEN = None
   \<and> secureStore (snd (logout (Rejected network_failure) signed_in_app)) TOKEN_EXPIRATION = Some ''5000''
   \<and> secureStore (snd (logout (Rejected network_failure) signed_in_app)) SESSION_COOKIE
       = Some ''session-established''
   \<and> authState (snd (logout (Rejected network_failure) signed_in_app)) = initialState
   \<and> fst (validateSession (Rejected network_failure)
            (snd (logout (Rejected network_failure) signed_in_app)))
       = Resolved (session_result True None)"
proof -
  have s: "secureStore (snd (logout (Rejected network_failure) signed_in_app))
             = signed_in_store(AUTH_TOKEN := None, REFRESH_TOKEN := None)"
    using logout_state [of "Rejected network_failure" signed_in_app]
    by (simp add: signed_in_app_def)
  have a: "authState (snd (logout (Rejected network_failure) signed_in_app)) = initialState"
    using logout_state [of "Rejected network_failure" signed_in_app]
    by (simp add: signed_in_app_def logoutSuccess_def initialState_def)
  have v: "fst (validateSession (Rejected network_failure)
            (snd (logout (Rejected network_failure) signed_in_app)))
       = Resolved (session_result True None)"
    by (simp add: validateSession_def getItemAsync_def s signed_in_store_def storage_keys)
  have k: "secureStore (snd (logout (Rejected network_failure) signed_in_app)) AUTH_TOKEN = None"
    "secureStore (snd (logout (Rejected network_failure) signed_in_app)) REFRESH_TOKEN = None"
    "secureStore (snd (logout (Rejected network_failure) signed_in_app)) TOKEN_EXPIRATION = Some ''5000''"
    "secureStore (snd (logout (Rejected network_failure) signed_in_app)) SESSION_COOKIE
       = Some ''session-established''"
    by (simp_all add: s signed_in_store_def storage_keys)
  have b: "secureStore signed_in_app TOKEN_EXPIRATION = Some ''5000''"
    "secureStore signed_in_app SESSION_COOKIE = Some ''session-established''"
    by (simp_all add: signed_in_app_def signed_in_store_def storage_keys)
  show ?thesis
    by (intro conjI) (fact a v k b)+
qed

subsection \<open>The results of the session manager\<close>

lemma caught_ok_type_error: "caught_ok type_error"
  by (simp add: caught_ok_def readable_def type_error_def)

lemma caught_ok_store_error: "caught_ok store_error"
  by (simp add: caught_ok_def readable_def store_error_def)

lemma delivered_shape:
  "delivered e = type_error \<or> delivered e = USER_NOT_FOUND_error
   \<or> (\<exists>r. delivered e = response_error r)
   \<or> (\<exists>q. delivered e = JObj [(''code'', JStr ''NETWORK_ERROR''),
                       (''message'', JStr ''No response received from server''),
                       (''isNetworkError'', JBool True),
                       (''details'', q)])
   \<or> (\<exists>m. delivered e = JObj [(''code'', JStr ''REQUEST_SETUP_ERROR''), (''message'', m)])"
  by (auto simp: delivered_def formatError_def stringify_lower_cases split: sum.splits if_splits)

lemma caught_ok_delivered: "readable (delivered e) \<Longrightarrow> caught_ok (delivered e)"
  using delivered_shape [of e]
  by (auto simp: caught_ok_def type_error_def USER_NOT_FOUND_error_def response_error_def Let_def)

lemma formatError_caught:
  assumes "caught_ok c"
  shows "\<exists>f. formatError c = Inr f \<and> get_prop f ''error'' = JUndefined
           \<and> (\<exists>s. get_prop f ''code'' = JStr s \<and> s \<noteq> [])
           \<and> truthy (get_prop f ''message'')
           \<and> (\<exists>b. includes_call (get_prop f ''message'') p = Inr b)"
proof -
  have s: "serializable c" "c \<noteq> JUndefined" "\<not> is_nullish c"
    using assms by (auto simp: caught_ok_def readable_def)
  have m: "(\<exists>t. get_prop c ''message'' = JStr t) \<or> (\<exists>xs. get_prop c ''message'' = JArr xs)"
    using assms by (auto simp: caught_ok_def readable_def split: jsval.splits)
  show ?thesis
  proof (cases "no_user_found_text (toLowerCase (json_text c))")
    case True
    then show ?thesis
      using s by (simp add: formatError_def stringify_lower_cases USER_NOT_FOUND_error_def)
  next
    case False
    then have "formatError c = Inr (JObj [(''code'', JStr ''REQUEST_SETUP_ERROR''),
                       (''message'', js_or (get_prop c ''message'') (JStr ''Error setting up request''))])"
      using s assms by (simp add: formatError_def stringify_lower_cases caught_ok_def)
    then show ?thesis
      using m by (auto simp: js_or_def)
  qed
qed

lemma fallback_catch_ok:
  "caught_ok c \<Longrightarrow> fallback_catch fb c = Resolved (failure fb)"
  using formatError_caught [of c "[]"]
  by (auto simp: fallback_catch_def js_or_def)

lemma storeAuthTokens_thrown:
  "storeAuthTokens utils expiry tokens store = (Rejected ex, store') \<Longrightarrow> ex = store_error"
  by (cases utils)
     (auto simp: storeAuthTokens_1_def storeAuthTokens_2_def write_all_def setItemAsync_def Let_def
        split: if_splits jsval.splits)

lemma store_token_or_fail_cases:
  "(\<exists>st'. store_token_or_fail utils expiry fb response st = (Rejected store_error, st'))
   \<or> (\<exists>r st'. store_token_or_fail utils expiry fb response st = (Resolved r, st')
         \<and> (success r \<or> res_error r \<noteq> None))"
proof (cases "200 \<le> status response \<and> status response < 300
         \<and> truthy (extractTokenFromResponse utils response)")
  case True
  obtain x store' where s: "storeAuthTokens utils expiry
                (response_tokens (extractTokenFromResponse utils response) (data response))
                (secureStore st) = (x, store')"
    by (cases "storeAuthTokens utils expiry
                (response_tokens (extractTokenFromResponse utils response) (data response))
                (secureStore st)")
  show ?thesis
  proof (cases x)
    case (Resolved u)
    then show ?thesis
      using True s by (simp add: store_token_or_fail_def ok_response_def)
  next
    case (Rejected ex)
    then have "ex = store_error"
      using s storeAuthTokens_thrown by blast
    then show ?thesis
      using True s Rejected by (simp add: store_token_or_fail_def)
  qed
next
  case False
  then show ?thesis
    by (auto simp: store_token_or_fail_def failure_status_def)
qed

lemma coded_error_object: "c \<noteq> [] \<Longrightarrow> m \<noteq> [] \<Longrightarrow> coded_error (error_object (JStr c) (JStr m))"
  by (simp add: coded_error_def error_object_def)

lemma failure_result_failure: "coded_error e \<Longrightarrow> failure_result (Resolved (failure e))"
  by (simp add: failure_result_def failure_def)

lemma some_result_failure: "some_result (Resolved (failure e))"
  by (simp add: some_result_def failure_def)

lemma failure_some: "failure_result x \<Longrightarrow> some_result x"
  by (auto simp: failure_result_def some_result_def split: settled.splits option.splits)

lemma stringify_caught:
  "caught_ok c \<Longrightarrow> stringify_lower c = Inr (toLowerCase (json_text c))"
  by (auto simp: caught_ok_def readable_def stringify_lower_cases)

lemma register_catch_ok: "caught_ok c \<Longrightarrow> failure_result (register_catch c)"
  by (simp add: register_catch_def stringify_caught fallback_catch_ok failure_result_failure
      coded_error_object registration_failed_def)

lemma forgotPassword_catch_ok: "caught_ok c \<Longrightarrow> failure_result (forgotPassword_catch c)"
  by (simp add: forgotPassword_catch_def stringify_caught fallback_catch_ok failure_result_failure
      coded_error_object)

lemma resetPassword_catch_ok: "caught_ok c \<Longrightarrow> failure_result (resetPassword_catch c)"
  by (simp add: resetPassword_catch_def stringify_caught fallback_catch_ok failure_result_failure
      coded_error_object)

lemma login_catch_ok:
  assumes "caught_ok c"
  shows "login_catch c = Resolved (failure (error_object (JStr ''NETWORK_ERROR'')
           (JStr ''Network connection error. Please check your internet connection.'')))"
proof -
  obtain f b where f: "formatError c = Inr f"
      "includes_call (get_prop f ''message'') ''network'' = Inr b"
    using formatError_caught [OF assms, of "''network''"] by blast
  have o: "\<not> object_with ''response'' c"
    using assms by (simp add: caught_ok_def)
  show ?thesis
    using f o by (simp add: login_catch_def no_user_found_text_def)
qed

lemma login_try_cases:
  "(\<exists>ex st'. login_try utils expiry response st = (Rejected ex, st') \<and> caught_ok ex)
   \<or> (\<exists>r st'. login_try utils expiry response st = (Resolved r, st') \<and> (success r \<or> res_error r \<noteq> None))"
proof -
  obtain x store' where s: "storeAuthTokens utils expiry
                (response_tokens (extractTokenFromResponse utils response) (data response))
                (secureStore st) = (x, store')"
    by (cases "storeAuthTokens utils expiry
                (response_tokens (extractTokenFromResponse utils response) (data response))
                (secureStore st)")
  have x: "(\<exists>u. x = Resolved u) \<or> x = Rejected store_error"
    using s storeAuthTokens_thrown by (cases x) auto
  show ?thesis
    using x s caught_ok_type_error caught_ok_store_error
    by (auto simp: login_try_def Let_def stringify_lower_cases failure_status_def ok_response_def
        split: sum.splits)
qed

lemma token_flow_ok:
  assumes "\<And>c. caught_ok c \<Longrightarrow> failure_result (catch c)"
  shows "some_result (fst (case store_token_or_fail utils expiry fb response st of
             (Rejected ex, st2) \<Rightarrow> (catch ex, st2)
           | (Resolved r, st2) \<Rightarrow> (Resolved r, st2)))"
  using store_token_or_fail_cases [of utils expiry fb response st] assms [OF caught_ok_store_error]
  by (auto simp: some_result_def dest: failure_some)

lemma biometric_catch_ok: "caught_ok c \<Longrightarrow> failure_result (fallback_catch biometric_failed c)"
  by (simp add: fallback_catch_ok failure_result_failure coded_error_object biometric_failed_def)

lemma google_catch_ok: "caught_ok c \<Longrightarrow> failure_result (fallback_catch google_failed c)"
  by (simp add: fallback_catch_ok failure_result_failure coded_error_object google_failed_def)

lemma verify_catch_ok:
  "caught_ok c \<Longrightarrow> failure_result (fallback_catch (error_object (JStr ''TOKEN_VERIFICATION_ERROR'')
             (JStr ''Token verification failed'')) c)"
  by (simp add: fallback_catch_ok failure_result_failure coded_error_object)

lemma status_result_ok:
  "200 \<le> status response \<Longrightarrow> status response < 300 \<Longrightarrow> some_result (Resolved (status_result response))"
  by (simp add: some_result_def status_result_def)

lemma validateSession_rejected:
  assumes "caught_ok (delivered err)"
  shows "(if getItemAsync SESSION_COOKIE (secureStore st) = Some ''session-established''
          then fst (validateSession (Rejected err) st) = Resolved (session_result True None)
          else failure_result (fst (validateSession (Rejected err) st)))"
proof -
  obtain f where f: "formatError (delivered err) = Inr f"
      "\<exists>s. get_prop f ''code'' = JStr s \<and> s \<noteq> []" "truthy (get_prop f ''message'')"
    using formatError_caught [OF assms, of "[]"] by blast
  then have "coded_error f"
    by (auto simp: coded_error_def)
  then show ?thesis
    using f(1)
    by (simp add: validateSession_def apiClient_rejected failure_result_def session_result_def)
qed

lemma login_resolved: "some_result (fst (login utils expiry credentials (Resolved response) st))"
proof -
  define st1 where "st1 = issue_request LOGIN
             (JObj [(''identifier'', JStr (user_identifier credentials)),
                    (''password'', JStr (password credentials))]) st"
  have l: "login utils expiry credentials (Resolved response) st =
          (case login_try utils expiry response st1 of
             (Rejected err, st2) \<Rightarrow> (login_catch err, st2)
           | (Resolved r, st2) \<Rightarrow> (Resolved r, st2))"
    by (simp add: login_def apiClient_resolved st1_def)
  show ?thesis
    using login_try_cases [of utils expiry response st1]
    by (auto simp: l login_catch_ok some_result_def failure_def)
qed

text \<open>
  C2, as the code has it.  Take any of \<open>login\<close>, \<open>loginWithBiometricFallback\<close>,
  \<open>loginWithGoogle\<close>, \<open>register\<close>, \<open>forgotPassword\<close>, \<open>resetPassword\<close>,
  \<open>verifyToken\<close> and \<open>validateSession\<close>.  When the transport rejects and the error
  the response interceptor delivers can be serialized and has a string or an array as
  its message, the operation resolves to a failure result carrying an error with a code
  and a message (\<open>validateSession\<close>: to the success result instead, when the
  session marker is stored).  When the transport resolves with a 2xx response, the operation resolves to
  a result that carries an error when it is a failure.  \<open>logout\<close> resolves to no
  value when its request succeeds, and when the request fails it rejects with the
  error the response interceptor delivers.
\<close>

theorem session_manager_results:
  "(readable (delivered err) \<longrightarrow>
      failure_result (fst (login utils expiry credentials (Rejected err) st))
      \<and> failure_result (fst (loginWithBiometricFallback utils expiry ident (Rejected err) st))
      \<and> failure_result (fst (loginWithGoogle utils expiry token (Rejected err) st))
      \<and> failure_result (fst (register utils expiry userData (Rejected err) st))
      \<and> failure_result (fst (forgotPassword email (Rejected err) st))
      \<and> failure_result (fst (resetPassword token newPassword (Rejected err) st))
      \<and> failure_result (fst (verifyToken token (Rejected err) st))
      \<and> (if getItemAsync SESSION_COOKIE (secureStore st) = Some ''session-established''
         then fst (validateSession (Rejected err) st) = Resolved (session_result True None)
         else failure_result (fst (validateSession (Rejected err) st))))
   \<and> (200 \<le> status response \<and> status response < 300 \<longrightarrow>
      some_result (fst (login utils expiry credentials (Resolved response) st))
      \<and> some_result (fst (loginWithBiometricFallback utils expiry ident (Resolved response) st))
      \<and> some_result (fst (loginWithGoogle utils expiry token (Resolved response) st))
      \<and> some_result (fst (register utils expiry userData (Resolved response) st))
      \<and> some_result (fst (forgotPassword email (Resolved response) st))
      \<and> some_result (fst (resetPassword token newPassword (Resolved response) st))
      \<and> some_result (fst (verifyToken token (Resolved response) st))
      \<and> some_result (fst (validateSession (Resolved response) st)))
   \<and> fst (logout (Rejected err) st) = Rejected (delivered err)
   \<and> fst (logout (Resolved response) st) = Resolved None"
proof (intro conjI impI)
  assume "readable (delivered err)"
  then have c: "caught_ok (delivered err)"
    by (rule caught_ok_delivered)
  show "failure_result (fst (login utils expiry credentials (Rejected err) st))"
    by (simp add: login_def apiClient_rejected login_catch_ok [OF c] failure_result_failure
        coded_error_object)
  show "failure_result (fst (loginWithBiometricFallback utils expiry ident (Rejected err) st))"
    by (simp add: loginWithBiometricFallback_def loginWithBiometricFallback_resume_def
        settle_request_rejected biometric_catch_ok [OF c])
  show "failure_result (fst (loginWithGoogle utils expiry token (Rejected err) st))"
    by (simp add: loginWithGoogle_def apiClient_rejected google_catch_ok [OF c])
  show "failure_result (fst (register utils expiry userData (Rejected err) st))"
    by (simp add: register_def apiClient_rejected register_catch_ok [OF c])
  show "failure_result (fst (forgotPassword email (Rejected err) st))"
    by (simp add: forgotPassword_def apiClient_rejected forgotPassword_catch_ok [OF c])
  show "failure_result (fst (resetPassword token newPassword (Rejected err) st))"
    by (simp add: resetPassword_def apiClient_rejected resetPassword_catch_ok [OF c])
  show "failure_result (fst (verifyToken token (Rejected err) st))"
    by (simp add: verifyToken_def apiClient_rejected verify_catch_ok [OF c])
  show "(if getItemAsync SESSION_COOKIE (secureStore st) = Some ''session-established''
         then fst (validateSession (Rejected err) st) = Resolved (session_result True None)
         else failure_result (fst (validateSession (Rejected err) st)))"
    using c by (rule validateSession_rejected)
next
  assume ok: "200 \<le> status response \<and> status response < 300"
  show "some_result (fst (login utils expiry credentials (Resolved response) st))"
    by (rule login_resolved)
  show "some_result (fst (loginWithBiometricFallback utils expiry ident (Resolved response) st))"
    using token_flow_ok [of "fallback_catch biometric_failed", OF biometric_catch_ok]
    by (simp add: loginWithBiometricFallback_def loginWithBiometricFallback_resume_def
        settle_request_def)
  show "some_result (fst (loginWithGoogle utils expiry token (Resolved response) st))"
    using token_flow_ok [of "fallback_catch google_failed", OF google_catch_ok]
    by (simp add: loginWithGoogle_def apiClient_resolved)
  show "some_result (fst (register utils expiry userData (Resolved response) st))"
    using token_flow_ok [of register_catch, OF register_catch_ok]
    by (simp add: register_def apiClient_resolved)
  show "some_result (fst (forgotPassword email (Resolved response) st))"
    using ok by (simp add: forgotPassword_def apiClient_resolved status_result_ok)
  show "some_result (fst (resetPassword token newPassword (Resolved response) st))"
    using ok by (simp add: resetPassword_def apiClient_resolved status_result_ok)
  show "some_result (fst (verifyToken token (Resolved response) st))"
    using ok by (simp add: verifyToken_def apiClient_resolved status_result_ok)
  show "some_result (fst (validateSession (Resolved response) st))"
    by (simp add: validateSession_def apiClient_resolved some_result_def session_result_def)
next
  show "fst (logout (Rejected err) st) = Rejected (delivered err)"
    by (simp add: logout_def apiClient_rejected)
  show "fst (logout (Resolved response) st) = Resolved None"
    by (simp add: logout_def apiClient_resolved)
qed

theorem session_manager_results_witness:
  "readable (delivered network_failure)
   \<and> 200 \<le> status created_plain \<and> status created_plain < 300
   \<and> failure_result (fst (login Version2 day_expiry a_b_com (Rejected network_failure) fresh_app))
   \<and> failure_result (fst (verifyToken ''tok'' (Rejected network_failure) fresh_app))
   \<and> failure_result (fst (validateSession (Rejected network_failure) fresh_app))
   \<and> some_result (fst (login Version2 day_expiry a_b_com (Resolved created_plain) fresh_app))
   \<and> some_result (fst (forgotPassword ''a@b.com'' (Resolved created_plain) fresh_app))
   \<and> fst (logout (Rejected network_failure) fresh_app) = Rejected (delivered network_failure)
   \<and> fst (logout (Resolved created_plain) fresh_app) = Resolved None"
proof -
  have r: "readable (delivered network_failure)"
    by code_simp
  have o: "200 \<le> status created_plain \<and> status created_plain < 300"
    by (simp add: created_plain_def)
  have m: "getItemAsync SESSION_COOKIE (secureStore fresh_app) \<noteq> Some ''session-established''"
    by (simp add: getItemAsync_def fresh_app_def)
  note t = session_manager_results [where err = network_failure and response = created_plain
        and utils = Version2 and expiry = day_expiry and credentials = a_b_com and st = fresh_app
        and token = "''tok''" and email = "''a@b.com''" and ident = "''a@b.com''"
        and userData = JNull and newPassword = "''secret''"]
  have "if getItemAsync SESSION_COOKIE (secureStore fresh_app) = Some ''session-established''
        then fst (validateSession (Rejected network_failure) fresh_app)
               = Resolved (session_result True None)
        else failure_result (fst (validateSession (Rejected network_failure) fresh_app))"
    using t r by blast
  then have v: "failure_result (fst (validateSession (Rejected network_failure) fresh_app))"
    using m by simp
  show ?thesis
    using r o v t by blast
qed

text \<open>
  \<open>logout()\<close> on the signed-in application when the logout request gets no
  response: the promise is rejected, with the error the response interceptor made of
  the transport's error.  It does not resolve to a failure result.
\<close>

theorem logout_rejects_on_network_failure:
  "fst (logout (Rejected network_failure) signed_in_app) =
     Rejected (JObj [(''code'', JStr ''NETWORK_ERROR''),
                     (''message'', JStr ''No response received from server''),
                     (''isNetworkError'', JBool True),
                     (''details'', JObj [])])"
  by code_simp

end
